theory Spec2Isabelle
  imports Main "HOL-Library.Word"
begin

section \<open>Values, exceptions and the environment of the backend\<close>

text \<open>
  The backend (\<^verbatim>\<open>src/backend/src\<close>) is asynchronous Python on FastAPI. Each coroutine is
  modelled by a function that returns what the coroutine returns, or the exception it
  raises: a result of type \<open>exn + 'a\<close> with \<open>Inl\<close> for a raised exception. The clock
  (\<^verbatim>\<open>datetime.utcnow()\<close>) is an explicit argument.
\<close>

type_synonym uuid = "128 word"

text \<open>
  A \<^verbatim>\<open>datetime\<close> is its number of microseconds since the Unix epoch and a
  \<^verbatim>\<open>timedelta\<close> a number of microseconds. Python bounds both: a \<^verbatim>\<open>datetime\<close> lies between
  the first microsecond of year 1 and the last of year 9999, a \<^verbatim>\<open>timedelta\<close> has at most
  999999999 days; the operations that would leave these ranges raise \<^verbatim>\<open>OverflowError\<close>
  (see \<open>timedelta_days\<close> and \<open>datetime_add\<close> below).
\<close>

type_synonym datetime = int
type_synonym timedelta = int

definition datetime_min :: datetime where
  "datetime_min = - 62135596800000000"

definition datetime_max :: datetime where
  "datetime_max = 253402300799999999"

text \<open>\<^verbatim>\<open>calendar.timegm(d.utctimetuple())\<close>: whole seconds since the epoch, the
  microseconds dropped.\<close>

definition timegm :: "datetime \<Rightarrow> int" where
  "timegm d = d div 1000000"

text \<open>
  The exception classes that occur. All of them derive from \<^verbatim>\<open>Exception\<close>;
  \<open>ExpiredSignatureError\<close> and \<open>JWTClaimsError\<close> derive from \<open>JWTError\<close>, and
  \<open>UnknownHashError\<close> from \<open>ValueError\<close>. Each carries the text that \<^verbatim>\<open>str(e)\<close> gives;
  an \<open>HTTPException\<close> carries status code, detail and headers.
\<close>

datatype exn =
    HTTPException nat string "(string \<times> string) list"
  | JWTError string
  | ExpiredSignatureError string
  | JWTClaimsError string
  | ValueError string
  | UnknownHashError string
  | TypeError string
  | AttributeError string
  | OverflowError string
  | Exception string

fun status_code :: "exn \<Rightarrow> nat" where
  "status_code (HTTPException c d h) = c"
| "status_code e = 0"

fun is_HTTPException :: "exn \<Rightarrow> bool" where
  "is_HTTPException (HTTPException c d h) = True"
| "is_HTTPException e = False"

text \<open>\<^verbatim>\<open>except (ValueError, TypeError)\<close> catches these classes and their subclasses.\<close>

fun is_ValueError_or_TypeError :: "exn \<Rightarrow> bool" where
  "is_ValueError_or_TypeError (ValueError m) = True"
| "is_ValueError_or_TypeError (UnknownHashError m) = True"
| "is_ValueError_or_TypeError (TypeError m) = True"
| "is_ValueError_or_TypeError e = False"

text \<open>\<^verbatim>\<open>except Exception\<close> catches every class above.\<close>

fun is_Exception :: "exn \<Rightarrow> bool" where
  "is_Exception e = True"

text \<open>\<^verbatim>\<open>str(e)\<close>, used by the login route on exceptions that are not HTTP exceptions.\<close>

fun str_exn :: "exn \<Rightarrow> string" where
  "str_exn (HTTPException c d h) = d"
| "str_exn (JWTError m) = m"
| "str_exn (ExpiredSignatureError m) = m"
| "str_exn (JWTClaimsError m) = m"
| "str_exn (ValueError m) = m"
| "str_exn (UnknownHashError m) = m"
| "str_exn (TypeError m) = m"
| "str_exn (AttributeError m) = m"
| "str_exn (OverflowError m) = m"
| "str_exn (Exception m) = m"

text \<open>\<^verbatim>\<open>timedelta(days=d)\<close>, which raises when \<open>d\<close> exceeds 999999999 in magnitude.\<close>

definition timedelta_days :: "int \<Rightarrow> exn + timedelta" where
  "timedelta_days d =
     (if - 999999999 \<le> d \<and> d \<le> 999999999 then Inr (d * 86400000000)
      else Inl (OverflowError ''days; must have magnitude <= 999999999''))"

text \<open>\<^verbatim>\<open>d + td\<close> on a \<^verbatim>\<open>datetime\<close> and a \<^verbatim>\<open>timedelta\<close>, which raises when the sum is not a
  \<^verbatim>\<open>datetime\<close>.\<close>

definition datetime_add :: "datetime \<Rightarrow> timedelta \<Rightarrow> exn + datetime" where
  "datetime_add d td =
     (if datetime_min \<le> d + td \<and> d + td \<le> datetime_max then Inr (d + td)
      else Inl (OverflowError ''date value out of range''))"

text \<open>
  The values a claims dictionary holds: what JSON decoding yields, and \<^verbatim>\<open>datetime\<close>
  objects, which \<^verbatim>\<open>create_access_token\<close> stores under \<^verbatim>\<open>"exp"\<close>. JSON numbers with a
  fractional part are not represented.
\<close>

datatype pyval =
    PNone
  | PBool bool
  | PInt int
  | PStr string
  | PDatetime datetime
  | PList "pyval list"
  | PDict "(string \<times> pyval) list"

text \<open>Python truthiness, as \<^verbatim>\<open>not x\<close> and \<^verbatim>\<open>if x\<close> test it.\<close>

fun truthy :: "pyval \<Rightarrow> bool" where
  "truthy PNone = False"
| "truthy (PBool b) = b"
| "truthy (PInt i) = (i \<noteq> 0)"
| "truthy (PStr s) = (s \<noteq> [])"
| "truthy (PDatetime d) = True"
| "truthy (PList xs) = (xs \<noteq> [])"
| "truthy (PDict kvs) = (kvs \<noteq> [])"

type_synonym pydict = "string \<rightharpoonup> pyval"

text \<open>\<^verbatim>\<open>d.get(k)\<close>: the value, or \<^verbatim>\<open>None\<close> for a missing key.\<close>

definition dict_get :: "pydict \<Rightarrow> string \<Rightarrow> pyval" where
  "dict_get d k = (case d k of None \<Rightarrow> PNone | Some v \<Rightarrow> v)"

text \<open>
  What the code takes from outside the repository: the settings read from the
  environment and the primitives of the libraries it calls (python-jose, passlib, the
  standard \<^verbatim>\<open>uuid\<close> module). The signing secret and the algorithm are fixed inside the
  two \<open>jws\<close> functions.

  \<^item> \<open>jws_sign\<close>: \<^verbatim>\<open>jws.sign(claims, SECRET_KEY, algorithm=ALGORITHM)\<close>; it may raise on
    claims it cannot serialise.
  \<^item> \<open>jws_verify\<close>: \<^verbatim>\<open>jws.verify(token, SECRET_KEY, [ALGORITHM])\<close> followed by JSON decoding
    of the payload; \<open>None\<close> when the token is malformed, the signature does not verify
    or the payload is not a JSON object.
  \<^item> \<open>validate_registered\<close>: the library's checks of the registered claims other than
    \<^verbatim>\<open>exp\<close> and \<^verbatim>\<open>sub\<close>, given the claims and the current time in seconds.
  \<^item> \<open>int_of_str\<close>: \<^verbatim>\<open>int(s)\<close> on a string, \<open>None\<close> for \<^verbatim>\<open>ValueError\<close>.
  \<^item> \<open>uuid_of_hex\<close>: \<^verbatim>\<open>UUID(s)\<close> on a string, \<open>None\<close> for \<^verbatim>\<open>ValueError\<close>;
    \<open>str_of_uuid\<close>: \<^verbatim>\<open>str(u)\<close>.
  \<^item> \<open>handler_verify\<close>: \<^verbatim>\<open>pbkdf2_sha256.verify(secret, hash)\<close> on a digest that the
    handler has identified as its own; it raises on a digest it cannot parse.
  \<^item> \<open>jwt_expiry_days\<close>: \<^verbatim>\<open>settings.jwt_expiry_days\<close>.

  One constant belongs to the part of the repository that is not among the sources:
  \<open>page_size_bound\<close>, the largest page the todo service returns (see the service below).
\<close>

record env =
  jws_sign :: "pydict \<Rightarrow> exn + string"
  jws_verify :: "string \<Rightarrow> pydict option"
  validate_registered :: "pydict \<Rightarrow> int \<Rightarrow> exn option"
  int_of_str :: "string \<Rightarrow> int option"
  uuid_of_hex :: "string \<Rightarrow> uuid option"
  str_of_uuid :: "uuid \<Rightarrow> string"
  handler_verify :: "string \<Rightarrow> string \<Rightarrow> exn + bool"
  jwt_expiry_days :: int
  page_size_bound :: nat

definition ACCESS_TOKEN_EXPIRE_DAYS :: "env \<Rightarrow> int" where
  "ACCESS_TOKEN_EXPIRE_DAYS E = jwt_expiry_days E"


section \<open>The password functions (\<^verbatim>\<open>core/security.py\<close>)\<close>

text \<open>
  \<^verbatim>\<open>pwd_context = CryptContext(schemes=["pbkdf2_sha256"], deprecated="auto")\<close>.
  \<^verbatim>\<open>pwd_context.verify(secret, hash)\<close> first identifies the scheme of the digest among the
  configured schemes. The only scheme is \<^verbatim>\<open>pbkdf2_sha256\<close>, whose digests are recognised by
  their prefix; for a digest no scheme identifies, it raises \<^verbatim>\<open>UnknownHashError\<close>.
  Otherwise the handler parses the digest, recomputes and compares.
\<close>

definition pbkdf2_sha256_identify :: "string \<Rightarrow> bool" where
  "pbkdf2_sha256_identify hash = (take 15 hash = ''$pbkdf2-sha256$'')"

definition pwd_context_verify :: "env \<Rightarrow> string \<Rightarrow> string \<Rightarrow> exn + bool" where
  "pwd_context_verify E secret hash =
     (if pbkdf2_sha256_identify hash then handler_verify E secret hash
      else Inl (UnknownHashError ''hash could not be identified''))"

text \<open>\<^verbatim>\<open>verify_password\<close> returns what the context returns and catches nothing.\<close>

definition verify_password :: "env \<Rightarrow> string \<Rightarrow> string \<Rightarrow> exn + bool" where
  "verify_password E plain_password hashed_password =
     pwd_context_verify E plain_password hashed_password"

section \<open>The credential store and \<^verbatim>\<open>authenticate_user\<close>\<close>

text \<open>
  Modelled from the spec: the \<^verbatim>\<open>User\<close> and \<^verbatim>\<open>UserRead\<close> classes of
  \<^verbatim>\<open>models/user.py\<close>, which is not among the sources. A user record has a unique id, an
  email and a password hash; the read model is the user without the hash.
\<close>

record User =
  User_id :: uuid
  User_email :: string
  User_hashed_password :: string

record UserRead =
  UserRead_id :: uuid
  UserRead_email :: string

definition UserRead_model_validate :: "User \<Rightarrow> exn + UserRead" where
  "UserRead_model_validate user =
     Inr \<lparr>UserRead_id = User_id user, UserRead_email = User_email user\<rparr>"

text \<open>
  Modelled from the spec: the \<^verbatim>\<open>Todo\<close> class of \<^verbatim>\<open>models/todo.py\<close>, which is not among the
  sources: id, owning user id, title and description, completion flag (timestamps are
  left out).
\<close>

record Todo =
  Todo_id :: uuid
  Todo_user_id :: uuid
  Todo_title :: string
  Todo_description :: "string option"
  Todo_completed :: bool

text \<open>
  The database session: the rows of the two tables, in the order a query returns them,
  and the failure of the store if it is unreachable, in which case every
  \<^verbatim>\<open>session.execute\<close> raises it.
\<close>

record Session =
  Session_failure :: "exn option"
  Session_users :: "User list"
  Session_todos :: "Todo list"

text \<open>\<^verbatim>\<open>(await session.execute(select(User).where(p))).scalars()\<close>\<close>

definition select_users :: "Session \<Rightarrow> (User \<Rightarrow> bool) \<Rightarrow> exn + User list" where
  "select_users session p =
     (case Session_failure session of
        Some e \<Rightarrow> Inl e
      | None \<Rightarrow> Inr (filter p (Session_users session)))"

text \<open>\<^verbatim>\<open>.first()\<close>: the first row, or \<^verbatim>\<open>None\<close>.\<close>

definition first :: "'a list \<Rightarrow> 'a option" where
  "first rows = (case rows of [] \<Rightarrow> None | r # _ \<Rightarrow> Some r)"

definition authenticate_user :: "env \<Rightarrow> Session \<Rightarrow> string \<Rightarrow> string \<Rightarrow> exn + User option" where
  "authenticate_user E session email password =
     (case select_users session (\<lambda>u. User_email u = email) of
        Inl e \<Rightarrow> Inl e
      | Inr result \<Rightarrow>
          (case first result of
             None \<Rightarrow> Inr None
           | Some user \<Rightarrow>
               (case verify_password E password (User_hashed_password user) of
                  Inl e \<Rightarrow> Inl e
                | Inr ok \<Rightarrow> if \<not> ok then Inr None else Inr (Some user))))"

section \<open>The token codec (\<^verbatim>\<open>create_access_token\<close>, \<^verbatim>\<open>verify_token\<close>)\<close>

text \<open>
  Dictionaries are mutable objects. The heap holds the dictionary objects, an object's
  address being its index; \<^verbatim>\<open>d.copy()\<close> allocates a new object with the same entries and
  \<^verbatim>\<open>d[k] = v\<close> changes the object at its address.
\<close>

type_synonym heap = "pydict list"

definition dict_copy :: "heap \<Rightarrow> nat \<Rightarrow> nat \<times> heap" where
  "dict_copy h a = (length h, h @ [h ! a])"

definition dict_setitem :: "heap \<Rightarrow> nat \<Rightarrow> string \<Rightarrow> pyval \<Rightarrow> heap" where
  "dict_setitem h a k v = h[a := (h ! a)(k \<mapsto> v)]"

text \<open>
  \<^verbatim>\<open>jwt.encode(claims, key, algorithm)\<close> of python-jose: a \<^verbatim>\<open>datetime\<close> under
  \<^verbatim>\<open>exp\<close>, \<^verbatim>\<open>iat\<close> or \<^verbatim>\<open>nbf\<close> is replaced, in the dictionary it was given, by its whole
  seconds since the epoch; then the claims are signed.
\<close>

definition convert_time_claim :: "string \<Rightarrow> heap \<Rightarrow> nat \<Rightarrow> heap" where
  "convert_time_claim time_claim h a =
     (case dict_get (h ! a) time_claim of
        PDatetime d \<Rightarrow> dict_setitem h a time_claim (PInt (timegm d))
      | _ \<Rightarrow> h)"

definition jwt_encode :: "env \<Rightarrow> heap \<Rightarrow> nat \<Rightarrow> (exn + string) \<times> heap" where
  "jwt_encode E h claims =
     (let h1 = convert_time_claim ''exp'' h claims;
          h2 = convert_time_claim ''iat'' h1 claims;
          h3 = convert_time_claim ''nbf'' h2 claims
      in (jws_sign E (h3 ! claims), h3))"

text \<open>\<^verbatim>\<open>if expires_delta\<close>: an absent delta and the zero \<^verbatim>\<open>timedelta\<close> are both false.\<close>

definition timedelta_truthy :: "timedelta option \<Rightarrow> bool" where
  "timedelta_truthy expires_delta =
     (case expires_delta of None \<Rightarrow> False | Some d \<Rightarrow> d \<noteq> 0)"

text \<open>
  The local \<^verbatim>\<open>expire\<close> of \<^verbatim>\<open>create_access_token\<close>:
  \<^verbatim>\<open>utcnow() + expires_delta if expires_delta else utcnow() + timedelta(days=...)\<close>.
  \<open>default_expire\<close> is the second branch. Either branch raises \<^verbatim>\<open>OverflowError\<close> when
  its sum is not a \<^verbatim>\<open>datetime\<close>, the second also when the configured days are no
  \<^verbatim>\<open>timedelta\<close>.
\<close>

definition default_expire :: "env \<Rightarrow> datetime \<Rightarrow> exn + datetime" where
  "default_expire E utcnow =
     (case timedelta_days (ACCESS_TOKEN_EXPIRE_DAYS E) of
        Inl e \<Rightarrow> Inl e
      | Inr td \<Rightarrow> datetime_add utcnow td)"

definition expire :: "env \<Rightarrow> timedelta option \<Rightarrow> datetime \<Rightarrow> exn + datetime" where
  "expire E expires_delta utcnow =
     (case expires_delta of
        Some d \<Rightarrow>
          if timedelta_truthy expires_delta then datetime_add utcnow d
          else default_expire E utcnow
      | None \<Rightarrow> default_expire E utcnow)"

text \<open>If computing \<^verbatim>\<open>expire\<close> raises, the copy has been made and nothing else is done.\<close>

definition create_access_token ::
  "env \<Rightarrow> heap \<Rightarrow> nat \<Rightarrow> timedelta option \<Rightarrow> datetime \<Rightarrow> (exn + string) \<times> heap" where
  "create_access_token E h data expires_delta utcnow =
     (let (to_encode, h1) = dict_copy h data
      in case expire E expires_delta utcnow of
           Inl e \<Rightarrow> (Inl e, h1)
         | Inr expire_at \<Rightarrow>
             jwt_encode E (dict_setitem h1 to_encode ''exp'' (PDatetime expire_at)) to_encode)"

text \<open>
  \<^verbatim>\<open>int(v)\<close> as the library applies it to the \<^verbatim>\<open>exp\<close> claim: \<^verbatim>\<open>ValueError\<close> for a string
  that is no number, \<^verbatim>\<open>TypeError\<close> for \<^verbatim>\<open>None\<close>, a list or a dictionary.
\<close>

fun py_int :: "env \<Rightarrow> pyval \<Rightarrow> exn + int" where
  "py_int E (PInt i) = Inr i"
| "py_int E (PBool b) = Inr (if b then 1 else 0)"
| "py_int E (PStr s) =
     (case int_of_str E s of
        None \<Rightarrow> Inl (ValueError ''invalid literal for int()'')
      | Some i \<Rightarrow> Inr i)"
| "py_int E v = Inl (TypeError ''int() argument must be a string or a number'')"

text \<open>
  The claim checks of \<^verbatim>\<open>jwt.decode(token, key, algorithms)\<close> with its default options, at
  the current time \<open>now\<close> in whole seconds. A token without \<^verbatim>\<open>exp\<close> does not expire; one
  with \<^verbatim>\<open>exp\<close> is expired when \<^verbatim>\<open>exp < now\<close>. A \<^verbatim>\<open>sub\<close> claim must be a string. Each of
  the other registered claims is checked only when present.
\<close>

definition validate_exp :: "env \<Rightarrow> pydict \<Rightarrow> int \<Rightarrow> exn option" where
  "validate_exp E claims now =
     (case claims ''exp'' of
        None \<Rightarrow> None
      | Some v \<Rightarrow>
          (case py_int E v of
             Inl e \<Rightarrow>
               (case e of
                  ValueError m \<Rightarrow>
                    Some (JWTClaimsError ''Expiration Time claim (exp) must be an integer.'')
                | _ \<Rightarrow> Some e)
           | Inr exp \<Rightarrow>
               if exp < now then Some (ExpiredSignatureError ''Signature has expired.'')
               else None))"

definition validate_sub :: "pydict \<Rightarrow> exn option" where
  "validate_sub claims =
     (case claims ''sub'' of
        None \<Rightarrow> None
      | Some (PStr s) \<Rightarrow> None
      | Some v \<Rightarrow> Some (JWTClaimsError ''Subject must be a string.''))"

definition other_registered :: "string list" where
  "other_registered = [''iat'', ''nbf'', ''aud'', ''iss'', ''jti'', ''at_hash'']"

definition validate_others :: "env \<Rightarrow> pydict \<Rightarrow> int \<Rightarrow> exn option" where
  "validate_others E claims now =
     (if list_all (\<lambda>k. claims k = None) other_registered then None
      else validate_registered E claims now)"

definition validate_claims :: "env \<Rightarrow> pydict \<Rightarrow> int \<Rightarrow> exn option" where
  "validate_claims E claims now =
     (case validate_exp E claims now of
        Some e \<Rightarrow> Some e
      | None \<Rightarrow>
          (case validate_sub claims of
             Some e \<Rightarrow> Some e
           | None \<Rightarrow> validate_others E claims now))"

definition jwt_decode :: "env \<Rightarrow> string \<Rightarrow> datetime \<Rightarrow> exn + pydict" where
  "jwt_decode E token utcnow =
     (case jws_verify E token of
        None \<Rightarrow> Inl (JWTError ''Signature verification failed.'')
      | Some claims \<Rightarrow>
          (case validate_claims E claims (timegm utcnow) of
             Some e \<Rightarrow> Inl e
           | None \<Rightarrow> Inr claims))"

text \<open>
  \<^verbatim>\<open>UUID(user_id)\<close>: on a string the parser decides; any other value has no
  \<^verbatim>\<open>replace\<close> method, which raises \<^verbatim>\<open>AttributeError\<close>.
\<close>

definition UUID :: "env \<Rightarrow> pyval \<Rightarrow> exn + uuid" where
  "UUID E hex =
     (case hex of
        PStr s \<Rightarrow>
          (case uuid_of_hex E s of
             None \<Rightarrow> Inl (ValueError ''badly formed hexadecimal UUID string'')
           | Some u \<Rightarrow> Inr u)
      | _ \<Rightarrow> Inl (AttributeError ''object has no attribute replace''))"

text \<open>
  \<^verbatim>\<open>TokenData\<close> declares both fields optional with default \<^verbatim>\<open>None\<close>; \<^verbatim>\<open>verify_token\<close>, the
  only place that builds one, always supplies both, so the record stores them directly.
  The constructor validates that the username is a string (a validation error is a
  \<^verbatim>\<open>ValueError\<close>).
\<close>

record TokenData =
  TokenData_username :: string
  TokenData_user_id :: uuid

definition TokenData_init :: "pyval \<Rightarrow> uuid \<Rightarrow> exn + TokenData" where
  "TokenData_init username user_id =
     (case username of
        PStr s \<Rightarrow> Inr \<lparr>TokenData_username = s, TokenData_user_id = user_id\<rparr>
      | _ \<Rightarrow> Inl (ValueError ''validation error for TokenData''))"

text \<open>
  \<^verbatim>\<open>verify_token\<close>: the outer \<^verbatim>\<open>try\<close> catches \<^verbatim>\<open>Exception\<close>, the inner one
  \<^verbatim>\<open>(ValueError, TypeError)\<close>; an exception neither catches would be raised to the caller.
\<close>

definition verify_token_inner :: "env \<Rightarrow> pyval \<Rightarrow> pyval \<Rightarrow> exn + TokenData option" where
  "verify_token_inner E username user_id =
     (case UUID E user_id of
        Inl e \<Rightarrow> if is_ValueError_or_TypeError e then Inr None else Inl e
      | Inr u \<Rightarrow>
          (case TokenData_init username u of
             Inl e \<Rightarrow> if is_ValueError_or_TypeError e then Inr None else Inl e
           | Inr td \<Rightarrow> Inr (Some td)))"

definition verify_token_body :: "env \<Rightarrow> string \<Rightarrow> datetime \<Rightarrow> exn + TokenData option" where
  "verify_token_body E token utcnow =
     (case jwt_decode E token utcnow of
        Inl e \<Rightarrow> Inl e
      | Inr payload \<Rightarrow>
          (let username = dict_get payload ''sub'';
               user_id = dict_get payload ''user_id''
           in if \<not> truthy username \<or> \<not> truthy user_id then Inr None
              else verify_token_inner E username user_id))"

definition verify_token :: "env \<Rightarrow> string \<Rightarrow> datetime \<Rightarrow> exn + TokenData option" where
  "verify_token E token utcnow =
     (case verify_token_body E token utcnow of
        Inl e \<Rightarrow> if is_Exception e then Inr None else Inl e
      | Inr r \<Rightarrow> Inr r)"

section \<open>The cookie-based dependencies\<close>

record Request =
  cookies :: "string \<rightharpoonup> string"

definition credentials_exception :: exn where
  "credentials_exception =
     HTTPException 401 ''Could not validate credentials'' [(''WWW-Authenticate'', ''Bearer'')]"

definition get_current_user_from_cookie_body ::
  "env \<Rightarrow> Request \<Rightarrow> Session \<Rightarrow> datetime \<Rightarrow> exn + UserRead" where
  "get_current_user_from_cookie_body E request session utcnow =
     (case cookies request ''access_token'' of
        None \<Rightarrow> Inl credentials_exception
      | Some token \<Rightarrow>
          if token = [] then Inl credentials_exception
          else
            (case verify_token E token utcnow of
               Inl e \<Rightarrow> Inl e
             | Inr None \<Rightarrow> Inl credentials_exception
             | Inr (Some token_data) \<Rightarrow>
                 (case select_users session (\<lambda>u. User_id u = TokenData_user_id token_data) of
                    Inl e \<Rightarrow> Inl e
                  | Inr result \<Rightarrow>
                      (case first result of
                         None \<Rightarrow> Inl credentials_exception
                       | Some user \<Rightarrow> UserRead_model_validate user))))"

text \<open>\<^verbatim>\<open>except (JWTError, ValueError, Exception): raise credentials_exception\<close>\<close>

definition get_current_user_from_cookie ::
  "env \<Rightarrow> Request \<Rightarrow> Session \<Rightarrow> datetime \<Rightarrow> exn + UserRead" where
  "get_current_user_from_cookie E request session utcnow =
     (case get_current_user_from_cookie_body E request session utcnow of
        Inl e \<Rightarrow> if is_Exception e then Inl credentials_exception else Inl e
      | Inr user \<Rightarrow> Inr user)"

definition get_user_id_from_cookie :: "env \<Rightarrow> Request \<Rightarrow> datetime \<Rightarrow> exn + uuid" where
  "get_user_id_from_cookie E request utcnow =
     (case cookies request ''access_token'' of
        None \<Rightarrow> Inl credentials_exception
      | Some token \<Rightarrow>
          if token = [] then Inl credentials_exception
          else
            (case verify_token E token utcnow of
               Inl e \<Rightarrow> Inl e
             | Inr None \<Rightarrow> Inl credentials_exception
             | Inr (Some token_data) \<Rightarrow> Inr (TokenData_user_id token_data)))"

section \<open>The login route (\<^verbatim>\<open>api/auth.py\<close>)\<close>

record LoginRequest =
  LoginRequest_email :: string
  LoginRequest_password :: string

text \<open>The cookie that \<^verbatim>\<open>response.set_cookie\<close> sets, and the body the route returns.\<close>

record SetCookie =
  SetCookie_key :: string
  SetCookie_value :: string
  SetCookie_httponly :: bool
  SetCookie_secure :: bool
  SetCookie_samesite :: string
  SetCookie_max_age :: int
  SetCookie_path :: string

record LoginBody =
  LoginBody_message :: string
  LoginBody_user_id :: string
  LoginBody_access_token :: string

definition login_user_body ::
  "env \<Rightarrow> Session \<Rightarrow> LoginRequest \<Rightarrow> datetime \<Rightarrow> exn + LoginBody \<times> SetCookie" where
  "login_user_body E session login_request utcnow =
     (case authenticate_user E session (LoginRequest_email login_request)
             (LoginRequest_password login_request) of
        Inl e \<Rightarrow> Inl e
      | Inr None \<Rightarrow>
          Inl (HTTPException 401 ''Incorrect email or password''
                 [(''WWW-Authenticate'', ''Bearer'')])
      | Inr (Some user) \<Rightarrow>
          (case timedelta_days (ACCESS_TOKEN_EXPIRE_DAYS E) of
             Inl e \<Rightarrow> Inl e
           | Inr access_token_expires \<Rightarrow>
               (let data = [''sub'' \<mapsto> PStr (User_email user),
                            ''user_id'' \<mapsto> PStr (str_of_uuid E (User_id user))]
                in case fst (create_access_token E [data] 0 (Some access_token_expires)
                               utcnow) of
                     Inl e \<Rightarrow> Inl e
                   | Inr access_token \<Rightarrow>
                       Inr (\<lparr>LoginBody_message = ''Login successful'',
                             LoginBody_user_id = str_of_uuid E (User_id user),
                             LoginBody_access_token = access_token\<rparr>,
                            \<lparr>SetCookie_key = ''access_token'',
                             SetCookie_value = access_token,
                             SetCookie_httponly = True,
                             SetCookie_secure = True,
                             SetCookie_samesite = ''none'',
                             SetCookie_max_age = ACCESS_TOKEN_EXPIRE_DAYS E * 24 * 60 * 60,
                             SetCookie_path = ''/''\<rparr>))))"

text \<open>
  \<^verbatim>\<open>except HTTPException: raise\<close>, then \<^verbatim>\<open>except Exception as e\<close>, which raises a 500 whose
  detail is \<^verbatim>\<open>f"Internal Server Error: {str(e)}"\<close>.
\<close>

definition login_user ::
  "env \<Rightarrow> Session \<Rightarrow> LoginRequest \<Rightarrow> datetime \<Rightarrow> exn + LoginBody \<times> SetCookie" where
  "login_user E session login_request utcnow =
     (case login_user_body E session login_request utcnow of
        Inl e \<Rightarrow>
          if is_HTTPException e then Inl e
          else if is_Exception e then
            Inl (HTTPException 500 (''Internal Server Error: '' @ str_exn e) [])
          else Inl e
      | Inr r \<Rightarrow> Inr r)"

section \<open>The todo service and the todo routes (\<^verbatim>\<open>api/todos.py\<close>)\<close>

text \<open>
  Modelled from the spec: the request models \<^verbatim>\<open>TodoCreate\<close>, \<^verbatim>\<open>TodoUpdate\<close> and
  \<^verbatim>\<open>TodoPatch\<close> of \<^verbatim>\<open>models/todo.py\<close>, which is not among the sources. The create body
  carries the todo fields and, so that a client can try to supply one, an optional owner.
\<close>

record TodoCreate =
  TodoCreate_title :: string
  TodoCreate_description :: "string option"
  TodoCreate_completed :: bool
  TodoCreate_user_id :: "uuid option"

record TodoUpdate =
  TodoUpdate_title :: string
  TodoUpdate_description :: "string option"
  TodoUpdate_completed :: bool

record TodoPatch =
  TodoPatch_title :: "string option"
  TodoPatch_description :: "string option"
  TodoPatch_completed :: "bool option"

text \<open>
  Modelled from the spec: the class \<^verbatim>\<open>TodoService\<close> of \<^verbatim>\<open>services/todo_service.py\<close>, which
  is not among the sources. By section 4.5 of the spec, \<^verbatim>\<open>create\<close> stamps the new record's
  owner with the caller's id; every other operation filters by
  \<^verbatim>\<open>id AND owner == caller_id\<close> in one lookup and, if no row matches, fails with a
  uniform not-found (404, section 6); listing returns the caller's rows from an offset,
  at most a page of them, where the page size is bounded (sections 4.5 and 6): the page
  size used is the requested one, cut down to \<open>page_size_bound\<close>, a number the spec
  does not give. A negative offset or page size counts as zero. The id of a new record is
  an argument. An unreachable store raises its failure.
\<close>

definition todo_not_found :: exn where
  "todo_not_found = HTTPException 404 ''Todo not found'' []"

definition owned :: "uuid \<Rightarrow> uuid \<Rightarrow> Todo \<Rightarrow> bool" where
  "owned todo_id user_id t = (Todo_id t = todo_id \<and> Todo_user_id t = user_id)"

definition select_todos :: "Session \<Rightarrow> (Todo \<Rightarrow> bool) \<Rightarrow> exn + Todo list" where
  "select_todos session p =
     (case Session_failure session of
        Some e \<Rightarrow> Inl e
      | None \<Rightarrow> Inr (filter p (Session_todos session)))"

definition TodoService_create_todo ::
  "Session \<Rightarrow> TodoCreate \<Rightarrow> uuid \<Rightarrow> uuid \<Rightarrow> (exn + Todo) \<times> Session" where
  "TodoService_create_todo session todo_create user_id new_id =
     (case Session_failure session of
        Some e \<Rightarrow> (Inl e, session)
      | None \<Rightarrow>
          (let todo = \<lparr>Todo_id = new_id, Todo_user_id = user_id,
                       Todo_title = TodoCreate_title todo_create,
                       Todo_description = TodoCreate_description todo_create,
                       Todo_completed = TodoCreate_completed todo_create\<rparr>
           in (Inr todo, session\<lparr>Session_todos := Session_todos session @ [todo]\<rparr>)))"

definition TodoService_get_todo_by_id :: "Session \<Rightarrow> uuid \<Rightarrow> uuid \<Rightarrow> exn + Todo" where
  "TodoService_get_todo_by_id session todo_id user_id =
     (case select_todos session (owned todo_id user_id) of
        Inl e \<Rightarrow> Inl e
      | Inr result \<Rightarrow>
          (case first result of
             None \<Rightarrow> Inl todo_not_found
           | Some todo \<Rightarrow> Inr todo))"

definition TodoService_get_todos_by_user ::
  "env \<Rightarrow> Session \<Rightarrow> uuid \<Rightarrow> int \<Rightarrow> int \<Rightarrow> exn + Todo list" where
  "TodoService_get_todos_by_user E session user_id skip limit =
     (case select_todos session (\<lambda>t. Todo_user_id t = user_id) of
        Inl e \<Rightarrow> Inl e
      | Inr result \<Rightarrow>
          Inr (take (min (nat limit) (page_size_bound E)) (drop (nat skip) result)))"

text \<open>Writing back the row that the ownership-filtered lookup found.\<close>

definition replace_owned :: "Session \<Rightarrow> uuid \<Rightarrow> uuid \<Rightarrow> Todo \<Rightarrow> Session" where
  "replace_owned session todo_id user_id todo =
     session\<lparr>Session_todos :=
       map (\<lambda>t. if owned todo_id user_id t then todo else t) (Session_todos session)\<rparr>"

definition TodoService_update_todo ::
  "Session \<Rightarrow> uuid \<Rightarrow> TodoUpdate \<Rightarrow> uuid \<Rightarrow> (exn + Todo) \<times> Session" where
  "TodoService_update_todo session todo_id todo_update user_id =
     (case TodoService_get_todo_by_id session todo_id user_id of
        Inl e \<Rightarrow> (Inl e, session)
      | Inr todo \<Rightarrow>
          (let todo' = todo\<lparr>Todo_title := TodoUpdate_title todo_update,
                             Todo_description := TodoUpdate_description todo_update,
                             Todo_completed := TodoUpdate_completed todo_update\<rparr>
           in (Inr todo', replace_owned session todo_id user_id todo')))"

definition TodoService_patch_todo ::
  "Session \<Rightarrow> uuid \<Rightarrow> TodoPatch \<Rightarrow> uuid \<Rightarrow> (exn + Todo) \<times> Session" where
  "TodoService_patch_todo session todo_id todo_patch user_id =
     (case TodoService_get_todo_by_id session todo_id user_id of
        Inl e \<Rightarrow> (Inl e, session)
      | Inr todo \<Rightarrow>
          (let todo' = todo\<lparr>
                 Todo_title :=
                   (case TodoPatch_title todo_patch of None \<Rightarrow> Todo_title todo | Some v \<Rightarrow> v),
                 Todo_description :=
                   (case TodoPatch_description todo_patch of
                      None \<Rightarrow> Todo_description todo
                    | Some v \<Rightarrow> Some v),
                 Todo_completed :=
                   (case TodoPatch_completed todo_patch of
                      None \<Rightarrow> Todo_completed todo
                    | Some v \<Rightarrow> v)\<rparr>
           in (Inr todo', replace_owned session todo_id user_id todo')))"

definition TodoService_delete_todo ::
  "Session \<Rightarrow> uuid \<Rightarrow> uuid \<Rightarrow> (exn + unit) \<times> Session" where
  "TodoService_delete_todo session todo_id user_id =
     (case TodoService_get_todo_by_id session todo_id user_id of
        Inl e \<Rightarrow> (Inl e, session)
      | Inr todo \<Rightarrow>
          (Inr (), session\<lparr>Session_todos :=
                     filter (\<lambda>t. \<not> owned todo_id user_id t) (Session_todos session)\<rparr>))"

definition TodoService_toggle_todo_completion ::
  "Session \<Rightarrow> uuid \<Rightarrow> uuid \<Rightarrow> (exn + Todo) \<times> Session" where
  "TodoService_toggle_todo_completion session todo_id user_id =
     (case TodoService_get_todo_by_id session todo_id user_id of
        Inl e \<Rightarrow> (Inl e, session)
      | Inr todo \<Rightarrow>
          (let todo' = todo\<lparr>Todo_completed := \<not> Todo_completed todo\<rparr>
           in (Inr todo', replace_owned session todo_id user_id todo')))"

text \<open>
  The routes of \<^verbatim>\<open>api/todos.py\<close>. Each first awaits \<^verbatim>\<open>get_user_id_from_cookie(request)\<close>;
  if that raises, the route raises and the service is not called. A route returns its
  response and the session as it leaves it.
\<close>

definition create_todo ::
  "env \<Rightarrow> Request \<Rightarrow> Session \<Rightarrow> TodoCreate \<Rightarrow> uuid \<Rightarrow> datetime \<Rightarrow> (exn + Todo) \<times> Session" where
  "create_todo E request session todo_create new_id utcnow =
     (case get_user_id_from_cookie E request utcnow of
        Inl e \<Rightarrow> (Inl e, session)
      | Inr user_id \<Rightarrow> TodoService_create_todo session todo_create user_id new_id)"

definition get_todo ::
  "env \<Rightarrow> uuid \<Rightarrow> Request \<Rightarrow> Session \<Rightarrow> datetime \<Rightarrow> (exn + Todo) \<times> Session" where
  "get_todo E todo_id request session utcnow =
     (case get_user_id_from_cookie E request utcnow of
        Inl e \<Rightarrow> (Inl e, session)
      | Inr user_id \<Rightarrow> (TodoService_get_todo_by_id session todo_id user_id, session))"

text \<open>\<^verbatim>\<open>skip: int = 0, limit: int = 100\<close>: a query parameter the request omits is \<open>None\<close>.\<close>

definition get_todos ::
  "env \<Rightarrow> Request \<Rightarrow> Session \<Rightarrow> int option \<Rightarrow> int option \<Rightarrow> datetime
     \<Rightarrow> (exn + Todo list) \<times> Session" where
  "get_todos E request session skip limit utcnow =
     (let skip' = (case skip of None \<Rightarrow> 0 | Some v \<Rightarrow> v);
          limit' = (case limit of None \<Rightarrow> 100 | Some v \<Rightarrow> v)
      in case get_user_id_from_cookie E request utcnow of
           Inl e \<Rightarrow> (Inl e, session)
         | Inr user_id \<Rightarrow>
             (TodoService_get_todos_by_user E session user_id skip' limit', session))"

definition update_todo ::
  "env \<Rightarrow> uuid \<Rightarrow> TodoUpdate \<Rightarrow> Request \<Rightarrow> Session \<Rightarrow> datetime \<Rightarrow> (exn + Todo) \<times> Session" where
  "update_todo E todo_id todo_update request session utcnow =
     (case get_user_id_from_cookie E request utcnow of
        Inl e \<Rightarrow> (Inl e, session)
      | Inr user_id \<Rightarrow> TodoService_update_todo session todo_id todo_update user_id)"

definition patch_todo ::
  "env \<Rightarrow> uuid \<Rightarrow> TodoPatch \<Rightarrow> Request \<Rightarrow> Session \<Rightarrow> datetime \<Rightarrow> (exn + Todo) \<times> Session" where
  "patch_todo E todo_id todo_patch request session utcnow =
     (case get_user_id_from_cookie E request utcnow of
        Inl e \<Rightarrow> (Inl e, session)
      | Inr user_id \<Rightarrow> TodoService_patch_todo session todo_id todo_patch user_id)"

definition delete_todo ::
  "env \<Rightarrow> uuid \<Rightarrow> Request \<Rightarrow> Session \<Rightarrow> datetime \<Rightarrow> (exn + unit) \<times> Session" where
  "delete_todo E todo_id request session utcnow =
     (case get_user_id_from_cookie E request utcnow of
        Inl e \<Rightarrow> (Inl e, session)
      | Inr user_id \<Rightarrow> TodoService_delete_todo session todo_id user_id)"

definition toggle_todo_completion ::
  "env \<Rightarrow> uuid \<Rightarrow> Request \<Rightarrow> Session \<Rightarrow> datetime \<Rightarrow> (exn + Todo) \<times> Session" where
  "toggle_todo_completion E todo_id request session utcnow =
     (case get_user_id_from_cookie E request utcnow of
        Inl e \<Rightarrow> (Inl e, session)
      | Inr user_id \<Rightarrow> TodoService_toggle_todo_completion session todo_id user_id)"

section \<open>A concrete environment for evaluation\<close>

text \<open>
  A small instance of the environment on which the definitions can be run: one token,
  \<open>''signed''\<close>, which is what signing \<open>example_claims\<close> yields and which verifies to
  \<open>example_claims\<close>; two identifiers; digests that consist of the scheme prefix followed
  by the password.
\<close>

definition example_data :: pydict where
  "example_data = [''sub'' \<mapsto> PStr ''ann@example.com'', ''user_id'' \<mapsto> PStr ''u1'']"

definition example_claims :: pydict where
  "example_claims = example_data(''exp'' \<mapsto> PInt 100)"

definition example_env :: env where
  "example_env =
     \<lparr>jws_sign = (\<lambda>c. if c = example_claims then Inr ''signed''
                       else Inl (JWTError ''cannot sign'')),
      jws_verify = (\<lambda>t. if t = ''signed'' then Some example_claims else None),
      validate_registered = (\<lambda>c now. None),
      int_of_str = (\<lambda>s. None),
      uuid_of_hex = (\<lambda>s. if s = ''u1'' then Some 1 else if s = ''u2'' then Some 2 else None),
      str_of_uuid = (\<lambda>u. if u = 1 then ''u1'' else ''u2''),
      handler_verify = (\<lambda>secret hash. Inr (hash = ''$pbkdf2-sha256$'' @ secret)),
      jwt_expiry_days = 7,
      page_size_bound = 100\<rparr>"

text \<open>The same environment with a signer that signs any claims.\<close>

definition signing_env :: env where
  "signing_env = example_env\<lparr>jws_sign := (\<lambda>c. Inr ''signed'')\<rparr>"

definition example_request :: Request where
  "example_request = \<lparr>cookies = [''access_token'' \<mapsto> ''signed'']\<rparr>"

definition ann :: User where
  "ann = \<lparr>User_id = 1, User_email = ''ann@example.com'',
           User_hashed_password = ''$pbkdf2-sha256$pw1''\<rparr>"

definition bob :: User where
  "bob = \<lparr>User_id = 2, User_email = ''bob@example.com'',
           User_hashed_password = ''$pbkdf2-sha256$pw2''\<rparr>"

definition ann_todo :: Todo where
  "ann_todo = \<lparr>Todo_id = 10, Todo_user_id = 1, Todo_title = ''buy milk'',
                Todo_description = None, Todo_completed = False\<rparr>"

definition bob_todo :: Todo where
  "bob_todo = \<lparr>Todo_id = 20, Todo_user_id = 2, Todo_title = ''call ann'',
                Todo_description = None, Todo_completed = False\<rparr>"

definition session_without_ann :: Session where
  "session_without_ann =
     \<lparr>Session_failure = None, Session_users = [bob], Session_todos = [bob_todo]\<rparr>"

definition example_session :: Session where
  "example_session =
     \<lparr>Session_failure = None, Session_users = [ann, bob],
      Session_todos = [ann_todo, bob_todo]\<rparr>"

section \<open>Properties of the token codec\<close>

lemma verify_token_Inr:
  "verify_token E token utcnow =
     Inr (case verify_token_body E token utcnow of Inl e \<Rightarrow> None | Inr r \<Rightarrow> r)"
  by (simp add: verify_token_def split: sum.splits)

lemma verify_token_cases:
  "verify_token E token utcnow = Inr None \<or> (\<exists>td. verify_token E token utcnow = Inr (Some td))"
  by (cases "verify_token_body E token utcnow") (auto simp: verify_token_Inr)

lemma validate_exp_None_iff:
  "validate_exp E claims now = None \<longleftrightarrow>
     (case claims ''exp'' of None \<Rightarrow> True
      | Some v \<Rightarrow> (case py_int E v of Inl e \<Rightarrow> False | Inr e \<Rightarrow> now \<le> e))"
  by (auto simp: validate_exp_def split: option.splits sum.splits exn.splits)

lemma validate_sub_PStr: "claims ''sub'' = Some (PStr s) \<Longrightarrow> validate_sub claims = None"
  by (simp add: validate_sub_def)

lemma verify_token_inner_strs:
  "verify_token_inner E (PStr s) (PStr hex) =
     Inr (case uuid_of_hex E hex of None \<Rightarrow> None
          | Some u \<Rightarrow> Some \<lparr>TokenData_username = s, TokenData_user_id = u\<rparr>)"
  by (simp add: verify_token_inner_def UUID_def TokenData_init_def split: option.splits)

lemma verify_token_inner_Some:
  "verify_token_inner E username user_id = Inr (Some td) \<Longrightarrow>
     \<exists>s hex u. username = PStr s \<and> user_id = PStr hex \<and> uuid_of_hex E hex = Some u \<and>
        td = \<lparr>TokenData_username = s, TokenData_user_id = u\<rparr>"
  by (auto simp: verify_token_inner_def UUID_def TokenData_init_def
      split: pyval.splits option.splits sum.splits if_splits)

lemma verify_token_Some_iff:
  "verify_token E token utcnow = Inr (Some td) \<longleftrightarrow>
     (\<exists>claims s hex u.
        jws_verify E token = Some claims \<and>
        validate_claims E claims (timegm utcnow) = None \<and>
        claims ''sub'' = Some (PStr s) \<and> s \<noteq> [] \<and>
        claims ''user_id'' = Some (PStr hex) \<and> hex \<noteq> [] \<and> uuid_of_hex E hex = Some u \<and>
        td = \<lparr>TokenData_username = s, TokenData_user_id = u\<rparr>)"
proof
  assume "verify_token E token utcnow = Inr (Some td)"
  then have b: "verify_token_body E token utcnow = Inr (Some td)"
    by (simp add: verify_token_Inr split: sum.splits)
  then obtain claims where c: "jws_verify E token = Some claims"
    and v: "validate_claims E claims (timegm utcnow) = None"
    by (auto simp: verify_token_body_def jwt_decode_def split: option.splits sum.splits)
  from b c v have t: "truthy (dict_get claims ''sub'')" "truthy (dict_get claims ''user_id'')"
    and i: "verify_token_inner E (dict_get claims ''sub'') (dict_get claims ''user_id'') =
              Inr (Some td)"
    by (auto simp: verify_token_body_def jwt_decode_def Let_def split: if_splits)
  from verify_token_inner_Some [OF i] obtain s hex u where
    "dict_get claims ''sub'' = PStr s" "dict_get claims ''user_id'' = PStr hex"
    "uuid_of_hex E hex = Some u" "td = \<lparr>TokenData_username = s, TokenData_user_id = u\<rparr>"
    by blast
  with t c v show "\<exists>claims s hex u.
        jws_verify E token = Some claims \<and>
        validate_claims E claims (timegm utcnow) = None \<and>
        claims ''sub'' = Some (PStr s) \<and> s \<noteq> [] \<and>
        claims ''user_id'' = Some (PStr hex) \<and> hex \<noteq> [] \<and> uuid_of_hex E hex = Some u \<and>
        td = \<lparr>TokenData_username = s, TokenData_user_id = u\<rparr>"
    by (auto simp: dict_get_def split: option.splits)
next
  assume "\<exists>claims s hex u.
        jws_verify E token = Some claims \<and>
        validate_claims E claims (timegm utcnow) = None \<and>
        claims ''sub'' = Some (PStr s) \<and> s \<noteq> [] \<and>
        claims ''user_id'' = Some (PStr hex) \<and> hex \<noteq> [] \<and> uuid_of_hex E hex = Some u \<and>
        td = \<lparr>TokenData_username = s, TokenData_user_id = u\<rparr>"
  then show "verify_token E token utcnow = Inr (Some td)"
    by (auto simp: verify_token_Inr verify_token_body_def jwt_decode_def dict_get_def
        verify_token_inner_strs)
qed

lemma verify_token_rejects:
  "jws_verify E token = Some claims \<Longrightarrow> validate_claims E claims (timegm utcnow) = Some e \<Longrightarrow>
   verify_token E token utcnow = Inr None"
  by (simp add: verify_token_Inr verify_token_body_def jwt_decode_def)

lemma verify_token_corrupt:
  "jws_verify E token = None \<Longrightarrow> verify_token E token utcnow = Inr None"
  by (simp add: verify_token_Inr verify_token_body_def jwt_decode_def)

lemma timegm_mono: "a \<le> b \<Longrightarrow> timegm a \<le> timegm b"
  by (simp add: timegm_def zdiv_mono1)

lemma convert_time_claim_eq:
  "a < length h \<Longrightarrow>
   convert_time_claim k h a =
     h[a := (case dict_get (h ! a) k of
               PDatetime d \<Rightarrow> (h ! a)(k \<mapsto> PInt (timegm d))
             | _ \<Rightarrow> h ! a)]"
  by (simp add: convert_time_claim_def dict_setitem_def split: pyval.splits)

text \<open>
  What \<^verbatim>\<open>create_access_token\<close> does to the heap and what it signs. If computing the
  expiry raises, the exception is raised and the heap has gained the copy. Otherwise the
  heap gains one object, the claims \<open>c\<close> that are signed; \<open>c\<close> carries the computed
  expiry in whole seconds under \<^verbatim>\<open>exp\<close> and agrees with the caller's dictionary on every
  key that is not a time claim.
\<close>

lemma create_access_token_raises:
  "expire E expires_delta utcnow = Inl e \<Longrightarrow>
   create_access_token E h data expires_delta utcnow = (Inl e, h @ [h ! data])"
  by (simp add: create_access_token_def dict_copy_def)

lemma create_access_token_heap:
  assumes "data < length h" and "expire E expires_delta utcnow = Inr x"
  shows "\<exists>c. create_access_token E h data expires_delta utcnow = (jws_sign E c, h @ [c]) \<and>
           c ''exp'' = Some (PInt (timegm x)) \<and>
           (\<forall>k. k \<notin> set [''exp'', ''iat'', ''nbf''] \<longrightarrow> c k = (h ! data) k) \<and>
           (\<forall>k \<in> set [''iat'', ''nbf'']. (h ! data) k = None \<longrightarrow> c k = None)"
  using assms
  apply (simp add: create_access_token_def dict_copy_def jwt_encode_def Let_def dict_setitem_def
     convert_time_claim_eq dict_get_def nth_append
     split: option.splits)
  apply (auto split: pyval.splits option.splits)
  done

lemma create_access_token_Inr_expire:
  "fst (create_access_token E h data expires_delta utcnow) = Inr token \<Longrightarrow>
   \<exists>x. expire E expires_delta utcnow = Inr x"
  by (cases "expire E expires_delta utcnow") (simp_all add: create_access_token_raises)

lemma datetime_add_Inr: "datetime_add d td = Inr x \<Longrightarrow> x = d + td"
  by (simp add: datetime_add_def split: if_splits)

lemma timedelta_days_Inr: "timedelta_days d = Inr td \<Longrightarrow> td = d * 86400000000"
  by (simp add: timedelta_days_def split: if_splits)

lemma default_expire_Inr:
  "default_expire E utcnow = Inr x \<Longrightarrow> x = utcnow + jwt_expiry_days E * 86400000000"
proof -
  assume a: "default_expire E utcnow = Inr x"
  then obtain td where td: "timedelta_days (ACCESS_TOKEN_EXPIRE_DAYS E) = Inr td"
    and s: "datetime_add utcnow td = Inr x"
    by (cases "timedelta_days (ACCESS_TOKEN_EXPIRE_DAYS E)") (simp_all add: default_expire_def)
  from timedelta_days_Inr [OF td] datetime_add_Inr [OF s] show ?thesis
    by (simp add: ACCESS_TOKEN_EXPIRE_DAYS_def)
qed

lemma expire_Inr:
  assumes "expire E expires_delta utcnow = Inr x"
  shows "x = utcnow + (case expires_delta of
                   None \<Rightarrow> jwt_expiry_days E * 86400000000
                 | Some d \<Rightarrow> if d = 0 then jwt_expiry_days E * 86400000000 else d)"
proof (cases expires_delta)
  case None
  with assms have "default_expire E utcnow = Inr x" by (simp add: expire_def)
  from default_expire_Inr [OF this] None show ?thesis by simp
next
  case (Some d)
  show ?thesis
  proof (cases "d = 0")
    case True
    with assms Some have "default_expire E utcnow = Inr x"
      by (simp add: expire_def timedelta_truthy_def)
    from default_expire_Inr [OF this] Some True show ?thesis by simp
  next
    case False
    with assms Some have "datetime_add utcnow d = Inr x"
      by (simp add: expire_def timedelta_truthy_def)
    from datetime_add_Inr [OF this] Some False show ?thesis by simp
  qed
qed

subsection \<open>Round trip of a token (C3)\<close>

text \<open>
  C3, as the code has it. Let the caller's claims hold a non-empty subject and a user id
  that parses, and none of the other registered claims; let \<^verbatim>\<open>create_access_token\<close> return
  a token, and let verification of that token yield the claims that were signed into it.
  Then decoding at any time strictly before the computed expiry recovers subject and
  user id. More exactly, decoding succeeds as long as the current time, in whole seconds,
  does not exceed the expiry in whole seconds, and yields the invalid result from the
  next second on.
\<close>

theorem token_round_trip:
  assumes ref: "data < length h"
    and sub: "(h ! data) ''sub'' = Some (PStr email)" "email \<noteq> []"
    and uid: "(h ! data) ''user_id'' = Some (PStr hex)" "hex \<noteq> []" "uuid_of_hex E hex = Some u"
    and others: "list_all (\<lambda>k. (h ! data) k = None) other_registered"
    and enc: "fst (create_access_token E h data expires_delta issued) = Inr token"
    and codec: "\<forall>c. jws_sign E c = Inr token \<longrightarrow> jws_verify E token = Some c"
  shows "\<exists>x. expire E expires_delta issued = Inr x \<and>
           (utcnow < x \<longrightarrow>
              verify_token E token utcnow =
                Inr (Some \<lparr>TokenData_username = email, TokenData_user_id = u\<rparr>)) \<and>
           verify_token E token utcnow =
             (if timegm utcnow \<le> timegm x
              then Inr (Some \<lparr>TokenData_username = email, TokenData_user_id = u\<rparr>)
              else Inr None)"
proof -
  from create_access_token_Inr_expire [OF enc] obtain x where
    x: "expire E expires_delta issued = Inr x" by blast
  from create_access_token_heap [OF ref x] obtain c where
    c: "create_access_token E h data expires_delta issued = (jws_sign E c, h @ [c])"
    and cexp: "c ''exp'' = Some (PInt (timegm x))"
    and same: "\<forall>k. k \<notin> set [''exp'', ''iat'', ''nbf''] \<longrightarrow> c k = (h ! data) k"
    and times: "\<forall>k \<in> set [''iat'', ''nbf'']. (h ! data) k = None \<longrightarrow> c k = None"
    by blast
  from c enc codec have ver: "jws_verify E token = Some c" by simp
  from same sub(1) uid(1) have csub: "c ''sub'' = Some (PStr email)"
    and cuid: "c ''user_id'' = Some (PStr hex)" by simp_all
  from same times others have coth: "validate_others E c n = None" for n
    by (simp add: validate_others_def other_registered_def)
  have vc: "validate_claims E c n =
      (if n \<le> timegm x then None
       else Some (ExpiredSignatureError ''Signature has expired.''))" for n
    by (simp add: validate_claims_def validate_exp_def validate_sub_def cexp csub coth)
  have main: "verify_token E token utcnow =
           (if timegm utcnow \<le> timegm x
            then Inr (Some \<lparr>TokenData_username = email, TokenData_user_id = u\<rparr>)
            else Inr None)"
  proof (cases "timegm utcnow \<le> timegm x")
    case True
    with ver vc csub cuid sub(2) uid(2,3) show ?thesis
      by (simp add: verify_token_Some_iff)
  next
    case False
    with vc have "validate_claims E c (timegm utcnow) =
        Some (ExpiredSignatureError ''Signature has expired.'')"
      by simp
    from verify_token_rejects [OF ver this] False show ?thesis by simp
  qed
  moreover have "utcnow < x \<Longrightarrow> timegm utcnow \<le> timegm x"
    by (rule timegm_mono) simp
  ultimately show ?thesis using x by simp
qed

text \<open>
  The theorem at a token issued at time 0 for 100 seconds: valid one microsecond before
  the expiry, still valid during the whole second of the expiry, invalid one second
  after it.
\<close>

theorem token_round_trip_witness:
  "verify_token example_env ''signed'' 99999999 =
     Inr (Some \<lparr>TokenData_username = ''ann@example.com'', TokenData_user_id = 1\<rparr>) \<and>
   verify_token example_env ''signed'' 100999999 =
     Inr (Some \<lparr>TokenData_username = ''ann@example.com'', TokenData_user_id = 1\<rparr>) \<and>
   verify_token example_env ''signed'' 101000000 = Inr None"
proof -
  have ref: "0 < length [example_data]" by simp
  have sub: "([example_data] ! 0) ''sub'' = Some (PStr ''ann@example.com'')"
      "''ann@example.com'' \<noteq> []"
    by (simp_all add: example_data_def)
  have uid: "([example_data] ! 0) ''user_id'' = Some (PStr ''u1'')" "''u1'' \<noteq> []"
      "uuid_of_hex example_env ''u1'' = Some 1"
    by (simp_all add: example_data_def example_env_def)
  have others: "list_all (\<lambda>k. ([example_data] ! 0) k = None) other_registered"
    by (simp add: example_data_def other_registered_def)
  have ex: "expire example_env (Some 100000000) 0 = Inr 100000000"
    by (simp add: expire_def timedelta_truthy_def datetime_add_def datetime_min_def
        datetime_max_def)
  have enc: "fst (create_access_token example_env [example_data] 0 (Some 100000000) 0) =
      Inr ''signed''"
    by (simp add: create_access_token_def dict_copy_def dict_setitem_def jwt_encode_def
        convert_time_claim_def dict_get_def expire_def timedelta_truthy_def timegm_def
        datetime_add_def datetime_min_def datetime_max_def
        example_env_def example_claims_def example_data_def)
  have codec: "\<forall>c. jws_sign example_env c = Inr ''signed'' \<longrightarrow>
      jws_verify example_env ''signed'' = Some c"
    by (simp add: example_env_def)
  note rt = token_round_trip [OF ref sub uid others enc codec]
  from rt [of 99999999] rt [of 100999999] rt [of 101000000] show ?thesis
    by (simp add: ex timegm_def)
qed

text \<open>
  The claim as stated fails at the expiry itself: the token issued at time 0 for 100
  seconds has the computed expiry 100000000 (microseconds), and decoding it at exactly
  that time returns the claims.
\<close>

theorem token_accepted_at_expiry:
  "fst (create_access_token example_env [example_data] 0 (Some 100000000) 0) = Inr ''signed'' \<and>
   expire example_env (Some 100000000) 0 = Inr 100000000 \<and>
   verify_token example_env ''signed'' 100000000 =
     Inr (Some \<lparr>TokenData_username = ''ann@example.com'', TokenData_user_id = 1\<rparr>)"
  by (simp add: create_access_token_def dict_copy_def dict_setitem_def jwt_encode_def
        convert_time_claim_def dict_get_def expire_def timedelta_truthy_def timegm_def
        datetime_add_def datetime_min_def datetime_max_def
        example_env_def example_claims_def example_data_def
        verify_token_def verify_token_body_def jwt_decode_def validate_claims_def
        validate_exp_def validate_sub_def validate_others_def other_registered_def
        verify_token_inner_def UUID_def TokenData_init_def)

subsection \<open>When a token is accepted (C4)\<close>

lemma validate_claims_None_iff:
  "validate_claims E claims now = None \<longleftrightarrow>
     validate_exp E claims now = None \<and> validate_sub claims = None \<and>
     validate_others E claims now = None"
  by (simp add: validate_claims_def split: option.splits)

text \<open>
  C4, as the code has it. \<^verbatim>\<open>verify_token\<close> never raises: it returns the decoded claims or
  the one invalid result \<open>None\<close>. It returns claims exactly when the signature verifies,
  the token is not expired as the library judges it (no \<^verbatim>\<open>exp\<close> claim, or an \<^verbatim>\<open>exp\<close> that
  is not below the current time in whole seconds), the library accepts the other
  registered claims, the subject is a non-empty string and the user id is a non-empty
  string that parses as a UUID.
\<close>

theorem verify_token_decides:
  "(verify_token E token utcnow = Inr (Some td) \<longleftrightarrow>
      (\<exists>claims s hex u.
         jws_verify E token = Some claims \<and>
         (case claims ''exp'' of
            None \<Rightarrow> True
          | Some v \<Rightarrow> (case py_int E v of Inl e \<Rightarrow> False | Inr e \<Rightarrow> timegm utcnow \<le> e)) \<and>
         validate_others E claims (timegm utcnow) = None \<and>
         claims ''sub'' = Some (PStr s) \<and> s \<noteq> [] \<and>
         claims ''user_id'' = Some (PStr hex) \<and> hex \<noteq> [] \<and> uuid_of_hex E hex = Some u \<and>
         td = \<lparr>TokenData_username = s, TokenData_user_id = u\<rparr>)) \<and>
   (verify_token E token utcnow = Inr None \<or>
      (\<exists>td'. verify_token E token utcnow = Inr (Some td')))"
proof
  show "verify_token E token utcnow = Inr (Some td) \<longleftrightarrow>
      (\<exists>claims s hex u.
         jws_verify E token = Some claims \<and>
         (case claims ''exp'' of
            None \<Rightarrow> True
          | Some v \<Rightarrow> (case py_int E v of Inl e \<Rightarrow> False | Inr e \<Rightarrow> timegm utcnow \<le> e)) \<and>
         validate_others E claims (timegm utcnow) = None \<and>
         claims ''sub'' = Some (PStr s) \<and> s \<noteq> [] \<and>
         claims ''user_id'' = Some (PStr hex) \<and> hex \<noteq> [] \<and> uuid_of_hex E hex = Some u \<and>
         td = \<lparr>TokenData_username = s, TokenData_user_id = u\<rparr>)"
    unfolding verify_token_Some_iff validate_claims_None_iff validate_exp_None_iff
    by (auto simp: validate_sub_PStr)
  show "verify_token E token utcnow = Inr None \<or>
      (\<exists>td'. verify_token E token utcnow = Inr (Some td'))"
    by (rule verify_token_cases)
qed

text \<open>The theorem at the example token before its expiry, and at a token whose signature
  does not verify.\<close>

theorem verify_token_decides_witness:
  "verify_token example_env ''signed'' 42000000 =
     Inr (Some \<lparr>TokenData_username = ''ann@example.com'', TokenData_user_id = 1\<rparr>) \<and>
   verify_token example_env ''forged'' 42000000 = Inr None"
proof -
  have "\<exists>claims s hex u.
         jws_verify example_env ''signed'' = Some claims \<and>
         (case claims ''exp'' of
            None \<Rightarrow> True
          | Some v \<Rightarrow> (case py_int example_env v of Inl e \<Rightarrow> False
                        | Inr e \<Rightarrow> timegm 42000000 \<le> e)) \<and>
         validate_others example_env claims (timegm 42000000) = None \<and>
         claims ''sub'' = Some (PStr s) \<and> s \<noteq> [] \<and>
         claims ''user_id'' = Some (PStr hex) \<and> hex \<noteq> [] \<and>
         uuid_of_hex example_env hex = Some u \<and>
         \<lparr>TokenData_username = ''ann@example.com'', TokenData_user_id = 1\<rparr> =
           \<lparr>TokenData_username = s, TokenData_user_id = u\<rparr>"
    by (simp add: example_env_def example_claims_def example_data_def validate_others_def
        other_registered_def timegm_def)
  then have a: "verify_token example_env ''signed'' 42000000 =
     Inr (Some \<lparr>TokenData_username = ''ann@example.com'', TokenData_user_id = 1\<rparr>)"
    by (rule iffD2 [OF conjunct1 [OF verify_token_decides]])
  have "\<not> (\<exists>claims s hex u.
         jws_verify example_env ''forged'' = Some claims \<and>
         (case claims ''exp'' of
            None \<Rightarrow> True
          | Some v \<Rightarrow> (case py_int example_env v of Inl e \<Rightarrow> False
                        | Inr e \<Rightarrow> timegm 42000000 \<le> e)) \<and>
         validate_others example_env claims (timegm 42000000) = None \<and>
         claims ''sub'' = Some (PStr s) \<and> s \<noteq> [] \<and>
         claims ''user_id'' = Some (PStr hex) \<and> hex \<noteq> [] \<and>
         uuid_of_hex example_env hex = Some u \<and>
         td = \<lparr>TokenData_username = s, TokenData_user_id = u\<rparr>)" for td
    by (simp add: example_env_def)
  then have "verify_token example_env ''forged'' 42000000 \<noteq> Inr (Some td)" for td
    using conjunct1 [OF verify_token_decides, of example_env "''forged''" 42000000 td] by blast
  with conjunct2 [OF verify_token_decides, of example_env "''forged''" 42000000]
  have "verify_token example_env ''forged'' 42000000 = Inr None" by blast
  with a show ?thesis by simp
qed

text \<open>
  The claim as stated fails in its expiry condition: the example token carries
  \<^verbatim>\<open>exp = 100\<close> (seconds), and half a second after that instant it is still decoded.
\<close>

theorem verify_token_accepts_past_expiry:
  "jws_verify example_env ''signed'' = Some example_claims \<and>
   example_claims ''exp'' = Some (PInt 100) \<and>
   (100 * 1000000 < (100500000 :: int)) \<and>
   timegm 100500000 = 100 \<and>
   verify_token example_env ''signed'' 100500000 =
     Inr (Some \<lparr>TokenData_username = ''ann@example.com'', TokenData_user_id = 1\<rparr>)"
  by (simp add: timegm_def
        example_env_def example_claims_def example_data_def
        verify_token_def verify_token_body_def jwt_decode_def validate_claims_def
        validate_exp_def validate_sub_def validate_others_def other_registered_def
        verify_token_inner_def UUID_def TokenData_init_def dict_get_def)

subsection \<open>The expiry stamped by \<^verbatim>\<open>create_access_token\<close> and its frame (C10)\<close>

text \<open>
  C10 does not hold of the code for the zero delta. \<^verbatim>\<open>if expires_delta\<close> is false for
  \<^verbatim>\<open>timedelta(0)\<close> as it is for \<^verbatim>\<open>None\<close>, so a token requested with a time-to-live of zero
  at time 0 gets the configured seven days: its \<^verbatim>\<open>exp\<close> claim is 604800 (seconds), where
  the current time plus the time-to-live is 0.
\<close>

theorem zero_delta_gets_configured_days:
  "expire example_env (Some 0) 0 = Inr 604800000000 \<and>
   datetime_add 0 0 = Inr 0 \<and>
   dict_get (snd (create_access_token example_env [example_data] 0 (Some 0) 0) ! 1) ''exp'' =
     PInt 604800"
  by (simp add: create_access_token_def dict_copy_def dict_setitem_def jwt_encode_def
        convert_time_claim_def dict_get_def expire_def default_expire_def timedelta_truthy_def
        timegm_def timedelta_days_def datetime_add_def datetime_min_def datetime_max_def
        ACCESS_TOKEN_EXPIRE_DAYS_def example_env_def example_claims_def example_data_def)

text \<open>
  What does hold, for every delta. The caller's dictionary is never changed. If computing
  the expiry raises (the sum is no \<^verbatim>\<open>datetime\<close>, or the configured days are no
  \<^verbatim>\<open>timedelta\<close>), \<^verbatim>\<open>create_access_token\<close> raises that exception. Otherwise the claims that
  are signed carry the computed expiry in whole seconds under \<^verbatim>\<open>exp\<close>, whatever \<^verbatim>\<open>exp\<close>
  the caller's dictionary held, and agree with the caller's dictionary on every key that
  is not a time claim; the computed expiry is the current time plus the delta when a
  non-zero delta is given, and plus the configured days otherwise.
\<close>

theorem create_access_token_expiry_and_frame:
  assumes "data < length h"
  shows "snd (create_access_token E h data expires_delta utcnow) ! data = h ! data \<and>
         (\<forall>e. expire E expires_delta utcnow = Inl e \<longrightarrow>
              fst (create_access_token E h data expires_delta utcnow) = Inl e) \<and>
         (\<forall>x. expire E expires_delta utcnow = Inr x \<longrightarrow>
              x = utcnow + (case expires_delta of
                              None \<Rightarrow> jwt_expiry_days E * 86400000000
                            | Some d \<Rightarrow> if d = 0 then jwt_expiry_days E * 86400000000 else d) \<and>
              (\<exists>c. create_access_token E h data expires_delta utcnow =
                      (jws_sign E c, h @ [c]) \<and>
                    c ''exp'' = Some (PInt (timegm x)) \<and>
                    (\<forall>k. k \<notin> set [''exp'', ''iat'', ''nbf''] \<longrightarrow> c k = (h ! data) k)))"
proof (intro conjI allI impI)
  show "snd (create_access_token E h data expires_delta utcnow) ! data = h ! data"
  proof (cases "expire E expires_delta utcnow")
    case (Inl e)
    with assms show ?thesis by (simp add: create_access_token_raises nth_append)
  next
    case (Inr x)
    from create_access_token_heap [OF assms Inr] obtain c where
      "create_access_token E h data expires_delta utcnow = (jws_sign E c, h @ [c])"
      by blast
    with assms show ?thesis by (simp add: nth_append)
  qed
next
  fix e assume "expire E expires_delta utcnow = Inl e"
  then show "fst (create_access_token E h data expires_delta utcnow) = Inl e"
    by (simp add: create_access_token_raises)
next
  fix x assume x: "expire E expires_delta utcnow = Inr x"
  from expire_Inr [OF x]
  show "x = utcnow + (case expires_delta of
                        None \<Rightarrow> jwt_expiry_days E * 86400000000
                      | Some d \<Rightarrow> if d = 0 then jwt_expiry_days E * 86400000000 else d)" .
next
  fix x assume x: "expire E expires_delta utcnow = Inr x"
  from create_access_token_heap [OF assms x] obtain c where
    c: "create_access_token E h data expires_delta utcnow = (jws_sign E c, h @ [c])"
      "c ''exp'' = Some (PInt (timegm x))"
      "\<forall>k. k \<notin> set [''exp'', ''iat'', ''nbf''] \<longrightarrow> c k = (h ! data) k"
    by blast
  show "\<exists>c. create_access_token E h data expires_delta utcnow = (jws_sign E c, h @ [c]) \<and>
          c ''exp'' = Some (PInt (timegm x)) \<and>
          (\<forall>k. k \<notin> set [''exp'', ''iat'', ''nbf''] \<longrightarrow> c k = (h ! data) k)"
    by (rule exI [of _ c]) (use c in blast)
qed

text \<open>The theorem at a dictionary that already holds \<^verbatim>\<open>exp = 5\<close>, encoded at time 0 for
  100 seconds, and at a delta that leaves the range of \<^verbatim>\<open>datetime\<close>.\<close>

theorem create_access_token_expiry_and_frame_witness:
  "snd (create_access_token example_env [example_data(''exp'' \<mapsto> PInt 5)] 0
          (Some 100000000) 0) ! 0 = example_data(''exp'' \<mapsto> PInt 5) \<and>
   (\<exists>c. create_access_token example_env [example_data(''exp'' \<mapsto> PInt 5)] 0
           (Some 100000000) 0 =
           (jws_sign example_env c, [example_data(''exp'' \<mapsto> PInt 5)] @ [c]) \<and>
         c ''exp'' = Some (PInt 100) \<and>
         c ''sub'' = Some (PStr ''ann@example.com'')) \<and>
   fst (create_access_token example_env [example_data] 0 (Some 259200000000000000000) 0) =
     Inl (OverflowError ''date value out of range'')"
proof -
  have a: "0 < length [example_data(''exp'' \<mapsto> PInt 5)]" by simp
  have b: "0 < length [example_data]" by simp
  have x: "expire example_env (Some 100000000) 0 = Inr 100000000"
    by (simp add: expire_def timedelta_truthy_def datetime_add_def datetime_min_def
        datetime_max_def)
  have y: "expire example_env (Some 259200000000000000000) 0 =
      Inl (OverflowError ''date value out of range'')"
    by (simp add: expire_def timedelta_truthy_def datetime_add_def datetime_min_def
        datetime_max_def)
  note t = create_access_token_expiry_and_frame [OF a, of example_env "Some 100000000" 0]
  from t have 1: "snd (create_access_token example_env [example_data(''exp'' \<mapsto> PInt 5)] 0
          (Some 100000000) 0) ! 0 = example_data(''exp'' \<mapsto> PInt 5)" by simp
  from t x obtain c where c:
    "create_access_token example_env [example_data(''exp'' \<mapsto> PInt 5)] 0 (Some 100000000) 0 =
       (jws_sign example_env c, [example_data(''exp'' \<mapsto> PInt 5)] @ [c])"
    "c ''exp'' = Some (PInt (timegm 100000000))"
    "\<forall>k. k \<notin> set [''exp'', ''iat'', ''nbf''] \<longrightarrow>
       c k = ([example_data(''exp'' \<mapsto> PInt 5)] ! 0) k"
    by blast
  then have 2: "\<exists>c. create_access_token example_env [example_data(''exp'' \<mapsto> PInt 5)] 0
           (Some 100000000) 0 =
           (jws_sign example_env c, [example_data(''exp'' \<mapsto> PInt 5)] @ [c]) \<and>
         c ''exp'' = Some (PInt 100) \<and>
         c ''sub'' = Some (PStr ''ann@example.com'')"
    by (intro exI [of _ c]) (simp add: timegm_def example_data_def)
  from create_access_token_expiry_and_frame
         [OF b, of example_env "Some 259200000000000000000" 0] y
  have 3: "fst (create_access_token example_env [example_data] 0
      (Some 259200000000000000000) 0) = Inl (OverflowError ''date value out of range'')"
    by blast
  from 1 2 3 show ?thesis by blast
qed

section \<open>Properties of the password functions and of login\<close>

lemma first_filter_Some:
  "first (filter p xs) = Some x \<Longrightarrow> x \<in> set xs \<and> p x"
  by (induction xs) (auto simp: first_def split: if_splits)

lemma first_filter_None:
  "first (filter p xs) = None \<longleftrightarrow> (\<forall>x \<in> set xs. \<not> p x)"
  by (induction xs) (auto simp: first_def split: if_splits)

lemma authenticate_user_eq:
  "Session_failure session = None \<Longrightarrow>
   authenticate_user E session email password =
     (case first (filter (\<lambda>u. User_email u = email) (Session_users session)) of
        None \<Rightarrow> Inr None
      | Some user \<Rightarrow>
          (case verify_password E password (User_hashed_password user) of
             Inl e \<Rightarrow> Inl e
           | Inr ok \<Rightarrow> if ok then Inr (Some user) else Inr None))"
  by (simp add: authenticate_user_def select_users_def split: option.splits sum.splits)

subsection \<open>\<^verbatim>\<open>authenticate_user\<close> (C5)\<close>

text \<open>
  C5. \<^verbatim>\<open>authenticate_user\<close> returns a user exactly when the store answers, that user is
  the first row whose email equals the given one, and the password verifies against the
  stored hash. The user returned is a row of the table with that email, the only such
  row when emails are unique. It returns none when no row has that email, and none when
  the row exists and verification returns false.
\<close>

theorem authenticate_user_correct:
  "(authenticate_user E session email password = Inr (Some user) \<longleftrightarrow>
      Session_failure session = None \<and>
      first (filter (\<lambda>u. User_email u = email) (Session_users session)) = Some user \<and>
      verify_password E password (User_hashed_password user) = Inr True) \<and>
   (authenticate_user E session email password = Inr (Some user) \<longrightarrow>
      user \<in> set (Session_users session) \<and> User_email user = email \<and>
      (distinct (map User_email (Session_users session)) \<longrightarrow>
         (\<forall>u \<in> set (Session_users session). User_email u = email \<longrightarrow> u = user))) \<and>
   (Session_failure session = None \<and>
      (\<forall>u \<in> set (Session_users session). User_email u \<noteq> email) \<longrightarrow>
      authenticate_user E session email password = Inr None) \<and>
   (Session_failure session = None \<and>
      first (filter (\<lambda>u. User_email u = email) (Session_users session)) = Some user \<and>
      verify_password E password (User_hashed_password user) = Inr False \<longrightarrow>
      authenticate_user E session email password = Inr None)"
proof (intro conjI)
  show iff: "authenticate_user E session email password = Inr (Some user) \<longleftrightarrow>
      Session_failure session = None \<and>
      first (filter (\<lambda>u. User_email u = email) (Session_users session)) = Some user \<and>
      verify_password E password (User_hashed_password user) = Inr True"
    by (cases "Session_failure session")
       (auto simp: authenticate_user_eq authenticate_user_def select_users_def
          split: option.splits sum.splits if_splits)
  show "authenticate_user E session email password = Inr (Some user) \<longrightarrow>
      user \<in> set (Session_users session) \<and> User_email user = email \<and>
      (distinct (map User_email (Session_users session)) \<longrightarrow>
         (\<forall>u \<in> set (Session_users session). User_email u = email \<longrightarrow> u = user))"
  proof
    assume "authenticate_user E session email password = Inr (Some user)"
    with iff have "first (filter (\<lambda>u. User_email u = email) (Session_users session)) = Some user"
      by simp
    from first_filter_Some [OF this] have m: "user \<in> set (Session_users session)"
      and e: "User_email user = email" by simp_all
    have "u = user" if "distinct (map User_email (Session_users session))"
      "u \<in> set (Session_users session)" "User_email u = email" for u
      using that m e by (auto simp: distinct_map dest: inj_onD)
    with m e show "user \<in> set (Session_users session) \<and> User_email user = email \<and>
      (distinct (map User_email (Session_users session)) \<longrightarrow>
         (\<forall>u \<in> set (Session_users session). User_email u = email \<longrightarrow> u = user))"
      by blast
  qed
  show "Session_failure session = None \<and>
      (\<forall>u \<in> set (Session_users session). User_email u \<noteq> email) \<longrightarrow>
      authenticate_user E session email password = Inr None"
    by (simp add: authenticate_user_eq first_def)
  show "Session_failure session = None \<and>
      first (filter (\<lambda>u. User_email u = email) (Session_users session)) = Some user \<and>
      verify_password E password (User_hashed_password user) = Inr False \<longrightarrow>
      authenticate_user E session email password = Inr None"
    by (auto simp: authenticate_user_eq)
qed

text \<open>The theorem on the example table: the right password, a wrong password, an unknown
  email.\<close>

theorem authenticate_user_correct_witness:
  "authenticate_user example_env example_session ''ann@example.com'' ''pw1'' = Inr (Some ann) \<and>
   authenticate_user example_env example_session ''ann@example.com'' ''pw2'' = Inr None \<and>
   authenticate_user example_env example_session ''eve@example.com'' ''pw1'' = Inr None"
proof -
  have f: "Session_failure example_session = None"
    by (simp add: example_session_def)
  have l: "first (filter (\<lambda>u. User_email u = ''ann@example.com'') (Session_users example_session)) = Some ann"
    by (simp add: example_session_def first_def ann_def bob_def)
  have v1: "verify_password example_env ''pw1'' (User_hashed_password ann) = Inr True"
    and v2: "verify_password example_env ''pw2'' (User_hashed_password ann) = Inr False"
    by (simp_all add: ann_def verify_password_def pwd_context_verify_def pbkdf2_sha256_identify_def example_env_def)
  have n: "\<forall>u \<in> set (Session_users example_session). User_email u \<noteq> ''eve@example.com''"
    by (simp add: example_session_def ann_def bob_def)
  note t = authenticate_user_correct [of example_env example_session]
  from t [of "''ann@example.com''" "''pw1''" ann] f l v1
  have a: "authenticate_user example_env example_session ''ann@example.com'' ''pw1'' = Inr (Some ann)"
    by blast
  from t [of "''ann@example.com''" "''pw2''" ann] f l v2
  have b: "authenticate_user example_env example_session ''ann@example.com'' ''pw2'' = Inr None"
    by blast
  from t [of "''eve@example.com''" "''pw1''" ann] f n
  have c: "authenticate_user example_env example_session ''eve@example.com'' ''pw1'' = Inr None"
    by blast
  from a b c show ?thesis by simp
qed

subsection \<open>\<^verbatim>\<open>verify_password\<close> on a digest of another scheme (C7)\<close>

text \<open>
  C7 does not hold of the code. \<^verbatim>\<open>verify_password\<close> catches nothing, and the context,
  configured with \<^verbatim>\<open>pbkdf2_sha256\<close> alone, raises on a digest it cannot identify, a bcrypt
  digest for one (although the docstring announces support for bcrypt) or any string
  that is no digest.
\<close>

theorem verify_password_raises_on_unidentified_digest:
  "verify_password E ''pw1'' ''$2b$12$KIXQJfLkq3y0b1e8m0uQ6.'' =
     Inl (UnknownHashError ''hash could not be identified'') \<and>
   verify_password E ''pw1'' ''not-a-digest'' =
     Inl (UnknownHashError ''hash could not be identified'')"
  by (simp add: verify_password_def pwd_context_verify_def pbkdf2_sha256_identify_def)

subsection \<open>The login route's answer to an internal failure (C8)\<close>

text \<open>
  C8 does not hold of the code. When the store is unreachable and \<^verbatim>\<open>session.execute\<close>
  raises an exception with text \<open>msg\<close>, the login route answers 500 with the detail
  \<^verbatim>\<open>"Internal Server Error: "\<close> followed by \<open>msg\<close> itself; when the stored digest is one
  the password context cannot identify, the detail carries the text of that exception.
\<close>

theorem login_user_echoes_exception_text:
  "login_user E (session\<lparr>Session_failure := Some (Exception msg)\<rparr>) login_request utcnow =
     Inl (HTTPException 500 (''Internal Server Error: '' @ msg) []) \<and>
   login_user E
     \<lparr>Session_failure = None,
      Session_users = [ann\<lparr>User_hashed_password := ''$2b$12$KIXQJfLkq3y0b1e8m0uQ6.''\<rparr>],
      Session_todos = []\<rparr>
     \<lparr>LoginRequest_email = ''ann@example.com'', LoginRequest_password = ''pw1''\<rparr> utcnow =
     Inl (HTTPException 500 ''Internal Server Error: hash could not be identified'' [])"
  by (simp add: login_user_def login_user_body_def authenticate_user_def select_users_def
      first_def ann_def verify_password_def pwd_context_verify_def pbkdf2_sha256_identify_def)

subsection \<open>Further properties of the login route\<close>

lemma example_authenticate:
  "authenticate_user example_env example_session ''ann@example.com'' ''pw2'' = Inr None"
  "authenticate_user example_env example_session ''eve@example.com'' ''pw1'' = Inr None"
  by (simp_all add: authenticate_user_def select_users_def example_session_def first_def
      ann_def bob_def verify_password_def pwd_context_verify_def pbkdf2_sha256_identify_def
      example_env_def)

text \<open>
  When \<^verbatim>\<open>authenticate_user\<close> returns none, for an unknown email as for a wrong password,
  the route raises the same 401 with the detail \<^verbatim>\<open>"Incorrect email or password"\<close>.
\<close>

theorem login_user_wrong_credentials:
  "authenticate_user E session (LoginRequest_email login_request)
     (LoginRequest_password login_request) = Inr None \<Longrightarrow>
   login_user E session login_request utcnow =
     Inl (HTTPException 401 ''Incorrect email or password'' [(''WWW-Authenticate'', ''Bearer'')])"
  by (simp add: login_user_def login_user_body_def)

text \<open>The theorem for ann with a wrong password and for an unknown email.\<close>

theorem login_user_wrong_credentials_witness:
  "login_user example_env example_session
     \<lparr>LoginRequest_email = ''ann@example.com'', LoginRequest_password = ''pw2''\<rparr> 42000000 =
     Inl (HTTPException 401 ''Incorrect email or password'' [(''WWW-Authenticate'', ''Bearer'')]) \<and>
   login_user example_env example_session
     \<lparr>LoginRequest_email = ''eve@example.com'', LoginRequest_password = ''pw1''\<rparr> 42000000 =
     Inl (HTTPException 401 ''Incorrect email or password'' [(''WWW-Authenticate'', ''Bearer'')])"
  using login_user_wrong_credentials [of example_env example_session
      "\<lparr>LoginRequest_email = ''ann@example.com'', LoginRequest_password = ''pw2''\<rparr>" 42000000]
    login_user_wrong_credentials [of example_env example_session
      "\<lparr>LoginRequest_email = ''eve@example.com'', LoginRequest_password = ''pw1''\<rparr>" 42000000]
  by (simp add: example_authenticate)

text \<open>
  A successful login sets the cookie \<^verbatim>\<open>access_token\<close> to the token it returns in the body,
  http-only, secure, with \<^verbatim>\<open>samesite=none\<close>, path \<^verbatim>\<open>/\<close> and a max-age of the configured
  days in seconds; the token is the one \<^verbatim>\<open>create_access_token\<close> makes from the email and id
  of the authenticated user.
\<close>

theorem login_user_session_cookie:
  assumes "login_user E session login_request utcnow = Inr (body, cookie)"
  shows "SetCookie_key cookie = ''access_token'' \<and>
         SetCookie_value cookie = LoginBody_access_token body \<and>
         SetCookie_httponly cookie \<and> SetCookie_secure cookie \<and>
         SetCookie_samesite cookie = ''none'' \<and>
         SetCookie_max_age cookie = jwt_expiry_days E * 86400 \<and>
         SetCookie_path cookie = ''/'' \<and>
         LoginBody_message body = ''Login successful'' \<and>
         (\<exists>user. authenticate_user E session (LoginRequest_email login_request)
                    (LoginRequest_password login_request) = Inr (Some user) \<and>
                 LoginBody_user_id body = str_of_uuid E (User_id user) \<and>
                 fst (create_access_token E
                        [ [''sub'' \<mapsto> PStr (User_email user),
                          ''user_id'' \<mapsto> PStr (str_of_uuid E (User_id user))] ] 0
                        (Some (jwt_expiry_days E * 86400000000)) utcnow) =
                   Inr (LoginBody_access_token body))"
proof -
  from assms have b: "login_user_body E session login_request utcnow = Inr (body, cookie)"
    by (simp add: login_user_def split: sum.splits if_splits)
  then obtain user where u: "authenticate_user E session (LoginRequest_email login_request)
                    (LoginRequest_password login_request) = Inr (Some user)"
    by (auto simp: login_user_body_def split: sum.splits option.splits)
  from b u obtain td where td: "timedelta_days (ACCESS_TOKEN_EXPIRE_DAYS E) = Inr td"
    by (auto simp: login_user_body_def split: sum.splits)
  from timedelta_days_Inr [OF td] have tdv: "td = jwt_expiry_days E * 86400000000"
    by (simp add: ACCESS_TOKEN_EXPIRE_DAYS_def)
  from b u td obtain tok where tok: "fst (create_access_token E
                        [ [''sub'' \<mapsto> PStr (User_email user),
                          ''user_id'' \<mapsto> PStr (str_of_uuid E (User_id user))] ] 0
                        (Some td) utcnow) = Inr tok"
    by (auto simp: login_user_body_def Let_def split: sum.splits)
  from b u td tok have "body = \<lparr>LoginBody_message = ''Login successful'',
                             LoginBody_user_id = str_of_uuid E (User_id user),
                             LoginBody_access_token = tok\<rparr>"
    and "cookie = \<lparr>SetCookie_key = ''access_token'',
                             SetCookie_value = tok,
                             SetCookie_httponly = True,
                             SetCookie_secure = True,
                             SetCookie_samesite = ''none'',
                             SetCookie_max_age = ACCESS_TOKEN_EXPIRE_DAYS E * 24 * 60 * 60,
                             SetCookie_path = ''/''\<rparr>"
    by (simp_all add: login_user_body_def Let_def)
  with u tok tdv show ?thesis
    by (simp add: ACCESS_TOKEN_EXPIRE_DAYS_def)
qed

text \<open>The theorem for ann's login with her password.\<close>

theorem login_user_session_cookie_witness:
  "login_user signing_env example_session
     \<lparr>LoginRequest_email = ''ann@example.com'', LoginRequest_password = ''pw1''\<rparr> 42000000 =
     Inr (\<lparr>LoginBody_message = ''Login successful'', LoginBody_user_id = ''u1'',
           LoginBody_access_token = ''signed''\<rparr>,
          \<lparr>SetCookie_key = ''access_token'', SetCookie_value = ''signed'',
           SetCookie_httponly = True, SetCookie_secure = True, SetCookie_samesite = ''none'',
           SetCookie_max_age = 604800, SetCookie_path = ''/''\<rparr>)"
proof -
  have a: "authenticate_user signing_env example_session ''ann@example.com'' ''pw1'' = Inr (Some ann)"
    by (simp add: authenticate_user_def select_users_def
      example_session_def first_def ann_def bob_def verify_password_def pwd_context_verify_def
      pbkdf2_sha256_identify_def signing_env_def example_env_def)
  have t: "fst (create_access_token signing_env
             [ [''sub'' \<mapsto> PStr ''ann@example.com'', ''user_id'' \<mapsto> PStr ''u1''] ] 0
             (Some 604800000000) 42000000) = Inr ''signed''"
    by (simp add: create_access_token_def dict_copy_def dict_setitem_def jwt_encode_def Let_def
        expire_def timedelta_truthy_def datetime_add_def datetime_min_def datetime_max_def
        signing_env_def example_env_def)
  have d: "timedelta_days (ACCESS_TOKEN_EXPIRE_DAYS signing_env) = Inr 604800000000"
    by (simp add: ACCESS_TOKEN_EXPIRE_DAYS_def timedelta_days_def signing_env_def example_env_def)
  have s: "str_of_uuid signing_env (User_id ann) = ''u1''" "User_email ann = ''ann@example.com''"
    by (simp_all add: signing_env_def example_env_def ann_def)
  have "\<exists>r. login_user signing_env example_session
     \<lparr>LoginRequest_email = ''ann@example.com'', LoginRequest_password = ''pw1''\<rparr> 42000000 = Inr r"
    by (simp add: login_user_def login_user_body_def a d s t)
  then obtain body cookie where r: "login_user signing_env example_session
     \<lparr>LoginRequest_email = ''ann@example.com'', LoginRequest_password = ''pw1''\<rparr> 42000000 =
       Inr (body, cookie)" by force
  from login_user_session_cookie [OF r] a t s
  have "body = \<lparr>LoginBody_message = ''Login successful'', LoginBody_user_id = ''u1'',
           LoginBody_access_token = ''signed''\<rparr>"
   and "cookie = \<lparr>SetCookie_key = ''access_token'', SetCookie_value = ''signed'',
           SetCookie_httponly = True, SetCookie_secure = True, SetCookie_samesite = ''none'',
           SetCookie_max_age = 604800, SetCookie_path = ''/''\<rparr>"
    by (auto simp: signing_env_def example_env_def)
  with r show ?thesis by simp
qed

section \<open>Properties of identity resolution and of the todo routes\<close>

lemma get_user_id_from_cookie_cases:
  "get_user_id_from_cookie E request utcnow = Inl credentials_exception \<or>
   (\<exists>token td. cookies request ''access_token'' = Some token \<and> token \<noteq> [] \<and>
      verify_token E token utcnow = Inr (Some td) \<and>
      get_user_id_from_cookie E request utcnow = Inr (TokenData_user_id td))"
proof (cases "cookies request ''access_token''")
  case None
  then show ?thesis by (simp add: get_user_id_from_cookie_def)
next
  case (Some token)
  with verify_token_cases [of E token utcnow] show ?thesis
    by (auto simp: get_user_id_from_cookie_def)
qed

lemma get_user_id_from_cookie_Inl:
  "get_user_id_from_cookie E request utcnow = Inl e \<Longrightarrow> e = credentials_exception"
  using get_user_id_from_cookie_cases [of E request utcnow] by auto

lemma get_user_id_from_cookie_Inr_iff:
  "get_user_id_from_cookie E request utcnow = Inr uid \<longleftrightarrow>
     (\<exists>token td. cookies request ''access_token'' = Some token \<and> token \<noteq> [] \<and>
        verify_token E token utcnow = Inr (Some td) \<and> uid = TokenData_user_id td)"
  by (auto simp: get_user_id_from_cookie_def split: option.splits sum.splits)

lemma get_current_user_from_cookie_Inl:
  "get_current_user_from_cookie E request session utcnow = Inl e \<Longrightarrow> e = credentials_exception"
  by (auto simp: get_current_user_from_cookie_def split: sum.splits)

lemma get_current_user_from_cookie_Inr_iff:
  "get_current_user_from_cookie E request session utcnow = Inr r \<longleftrightarrow>
     (\<exists>token td user. cookies request ''access_token'' = Some token \<and> token \<noteq> [] \<and>
        verify_token E token utcnow = Inr (Some td) \<and>
        Session_failure session = None \<and>
        first (filter (\<lambda>u. User_id u = TokenData_user_id td) (Session_users session)) = Some user \<and>
        r = \<lparr>UserRead_id = User_id user, UserRead_email = User_email user\<rparr>)"
  by (auto simp: get_current_user_from_cookie_def get_current_user_from_cookie_body_def
      select_users_def UserRead_model_validate_def split: option.splits sum.splits)

lemma routes_unauthenticated:
  assumes "get_user_id_from_cookie E request utcnow = Inl e"
  shows "create_todo E request session todo_create new_id utcnow = (Inl credentials_exception, session)"
    and "get_todo E todo_id request session utcnow = (Inl credentials_exception, session)"
    and "get_todos E request session skip limit utcnow = (Inl credentials_exception, session)"
    and "update_todo E todo_id todo_update request session utcnow = (Inl credentials_exception, session)"
    and "patch_todo E todo_id todo_patch request session utcnow = (Inl credentials_exception, session)"
    and "delete_todo E todo_id request session utcnow = (Inl credentials_exception, session)"
    and "toggle_todo_completion E todo_id request session utcnow = (Inl credentials_exception, session)"
  using assms get_user_id_from_cookie_Inl [OF assms]
  by (simp_all add: create_todo_def get_todo_def get_todos_def update_todo_def patch_todo_def
      delete_todo_def toggle_todo_completion_def)

lemma get_todo_by_id_found:
  assumes "Session_failure session = None"
    and "\<exists>t \<in> set (Session_todos session). Todo_id t = todo_id \<and> Todo_user_id t = caller"
  shows "\<exists>t. TodoService_get_todo_by_id session todo_id caller = Inr t \<and>
           t \<in> set (Session_todos session) \<and> Todo_id t = todo_id \<and> Todo_user_id t = caller"
proof (cases "first (filter (owned todo_id caller) (Session_todos session))")
  case None
  with assms(2) show ?thesis by (auto simp: first_filter_None owned_def)
next
  case (Some t)
  from first_filter_Some [OF Some] Some assms(1) show ?thesis
    by (simp add: TodoService_get_todo_by_id_def select_todos_def owned_def)
qed

lemma get_todo_by_id_not_found:
  assumes "Session_failure session = None"
    and "\<not> (\<exists>t \<in> set (Session_todos session). Todo_id t = todo_id \<and> Todo_user_id t = caller)"
  shows "TodoService_get_todo_by_id session todo_id caller = Inl todo_not_found"
proof -
  from assms(2) have "first (filter (owned todo_id caller) (Session_todos session)) = None"
    by (subst first_filter_None) (simp add: owned_def)
  with assms(1) show ?thesis
    by (simp add: TodoService_get_todo_by_id_def select_todos_def)
qed

lemma example_auth: "get_user_id_from_cookie example_env example_request 42000000 = Inr 1"
  by (simp add: timegm_def
        example_env_def example_claims_def example_data_def example_request_def
        get_user_id_from_cookie_def
        verify_token_def verify_token_body_def jwt_decode_def validate_claims_def
        validate_exp_def validate_sub_def validate_others_def other_registered_def
        verify_token_inner_def UUID_def TokenData_init_def dict_get_def)

subsection \<open>Uniform rejection (C6)\<close>

text \<open>
  C6, as the code has it. The resolver of the todo routes, \<^verbatim>\<open>get_user_id_from_cookie\<close>,
  succeeds exactly when the cookie holds a non-empty token that \<^verbatim>\<open>verify_token\<close> accepts;
  the resolver of \<^verbatim>\<open>/auth/me\<close>, \<^verbatim>\<open>get_current_user_from_cookie\<close>, requires in addition
  that the store answers and holds a user with the token's id. Whatever the cause, the
  only exception either raises is the one \<^verbatim>\<open>credentials_exception\<close> (401). When the
  resolver of a todo route fails, the route raises that exception and leaves the session
  as it was.
\<close>

theorem identity_resolution_uniform:
  "(get_user_id_from_cookie E request utcnow = Inr uid \<longleftrightarrow>
      (\<exists>token td. cookies request ''access_token'' = Some token \<and> token \<noteq> [] \<and>
         verify_token E token utcnow = Inr (Some td) \<and> uid = TokenData_user_id td)) \<and>
   (get_current_user_from_cookie E request session utcnow = Inr r \<longleftrightarrow>
      (\<exists>token td user. cookies request ''access_token'' = Some token \<and> token \<noteq> [] \<and>
         verify_token E token utcnow = Inr (Some td) \<and>
         Session_failure session = None \<and>
         first (filter (\<lambda>u. User_id u = TokenData_user_id td) (Session_users session)) =
           Some user \<and>
         r = \<lparr>UserRead_id = User_id user, UserRead_email = User_email user\<rparr>)) \<and>
   (get_user_id_from_cookie E request utcnow = Inl e \<longrightarrow> e = credentials_exception) \<and>
   (get_current_user_from_cookie E request session utcnow = Inl e \<longrightarrow>
      e = credentials_exception) \<and>
   (get_user_id_from_cookie E request utcnow = Inl e \<longrightarrow>
      create_todo E request session todo_create new_id utcnow =
        (Inl credentials_exception, session) \<and>
      get_todo E todo_id request session utcnow = (Inl credentials_exception, session) \<and>
      get_todos E request session skip limit utcnow = (Inl credentials_exception, session) \<and>
      update_todo E todo_id todo_update request session utcnow =
        (Inl credentials_exception, session) \<and>
      patch_todo E todo_id todo_patch request session utcnow =
        (Inl credentials_exception, session) \<and>
      delete_todo E todo_id request session utcnow = (Inl credentials_exception, session) \<and>
      toggle_todo_completion E todo_id request session utcnow =
        (Inl credentials_exception, session))"
  using get_user_id_from_cookie_Inr_iff [of E request utcnow uid]
    get_current_user_from_cookie_Inr_iff [of E request session utcnow r]
    get_user_id_from_cookie_Inl [of E request utcnow e]
    get_current_user_from_cookie_Inl [of E request session utcnow e]
    routes_unauthenticated [of E request utcnow e]
  by blast

text \<open>The theorem at a request without cookie, with a forged token, with the example
  token after its expiry and before it.\<close>

theorem identity_resolution_uniform_witness:
  "get_user_id_from_cookie example_env \<lparr>cookies = Map.empty\<rparr> 42000000 = Inl credentials_exception \<and>
   get_user_id_from_cookie example_env \<lparr>cookies = [''access_token'' \<mapsto> ''forged'']\<rparr> 42000000 =
     Inl credentials_exception \<and>
   get_user_id_from_cookie example_env example_request 101000000 = Inl credentials_exception \<and>
   get_user_id_from_cookie example_env example_request 42000000 = Inr 1 \<and>
   get_todos example_env example_request example_session None None 101000000 =
     (Inl credentials_exception, example_session)"
proof -
  have v: "verify_token example_env ''signed'' 42000000 =
      Inr (Some \<lparr>TokenData_username = ''ann@example.com'', TokenData_user_id = 1\<rparr>)"
    "verify_token example_env ''forged'' 42000000 = Inr None"
    "verify_token example_env ''signed'' 101000000 = Inr None"
    by (simp_all add: timegm_def
        example_env_def example_claims_def example_data_def
        verify_token_def verify_token_body_def jwt_decode_def validate_claims_def
        validate_exp_def validate_sub_def validate_others_def other_registered_def
        verify_token_inner_def UUID_def TokenData_init_def dict_get_def)
  note t = identity_resolution_uniform [where E = example_env and session = example_session
      and skip = None and limit = None]
  have a: "get_user_id_from_cookie example_env \<lparr>cookies = Map.empty\<rparr> 42000000 =
      Inl credentials_exception"
  proof (cases "get_user_id_from_cookie example_env \<lparr>cookies = Map.empty\<rparr> 42000000")
    case (Inl e)
    with t [where request = "\<lparr>cookies = Map.empty\<rparr>" and utcnow = 42000000 and e = e]
    show ?thesis by simp
  next
    case (Inr uid)
    with t [where request = "\<lparr>cookies = Map.empty\<rparr>" and utcnow = 42000000 and uid = uid]
    show ?thesis by simp
  qed
  have b: "get_user_id_from_cookie example_env
      \<lparr>cookies = [''access_token'' \<mapsto> ''forged'']\<rparr> 42000000 = Inl credentials_exception"
  proof (cases "get_user_id_from_cookie example_env
      \<lparr>cookies = [''access_token'' \<mapsto> ''forged'']\<rparr> 42000000")
    case (Inl e)
    with t [where request = "\<lparr>cookies = [''access_token'' \<mapsto> ''forged'']\<rparr>"
        and utcnow = 42000000 and e = e]
    show ?thesis by simp
  next
    case (Inr uid)
    with t [where request = "\<lparr>cookies = [''access_token'' \<mapsto> ''forged'']\<rparr>"
        and utcnow = 42000000 and uid = uid] v
    show ?thesis by simp
  qed
  have c: "get_user_id_from_cookie example_env example_request 101000000 =
      Inl credentials_exception"
  proof (cases "get_user_id_from_cookie example_env example_request 101000000")
    case (Inl e)
    with t [where request = example_request and utcnow = 101000000 and e = e]
    show ?thesis by simp
  next
    case (Inr uid)
    with t [where request = example_request and utcnow = 101000000 and uid = uid] v
    show ?thesis by (simp add: example_request_def)
  qed
  have d: "get_user_id_from_cookie example_env example_request 42000000 = Inr 1"
    using t [where request = example_request and utcnow = 42000000 and uid = 1] v
    by (simp add: example_request_def)
  from c t [where request = example_request and utcnow = 101000000
      and e = credentials_exception]
  have e: "get_todos example_env example_request example_session None None 101000000 =
     (Inl credentials_exception, example_session)" by simp
  from a b c d e show ?thesis by simp
qed

text \<open>
  The claim as stated fails for a deleted user on the todo routes: with ann's row gone,
  her unexpired token is rejected by \<^verbatim>\<open>get_current_user_from_cookie\<close>, but
  \<^verbatim>\<open>get_user_id_from_cookie\<close> resolves it to her id, and the list route calls the service
  with that id and answers with a page.
\<close>

theorem deleted_user_token_accepted_by_todo_routes:
  "verify_token example_env ''signed'' 42000000 =
     Inr (Some \<lparr>TokenData_username = ''ann@example.com'', TokenData_user_id = 1\<rparr>) \<and>
   list_all (\<lambda>u. User_id u \<noteq> 1) (Session_users session_without_ann) \<and>
   get_current_user_from_cookie example_env example_request session_without_ann 42000000 =
     Inl credentials_exception \<and>
   get_user_id_from_cookie example_env example_request 42000000 = Inr 1 \<and>
   get_todos example_env example_request session_without_ann None None 42000000 =
     (TodoService_get_todos_by_user example_env session_without_ann 1 0 100,
      session_without_ann) \<and>
   fst (get_todos example_env example_request session_without_ann None None 42000000) = Inr []"
  by (simp add: timegm_def
        example_env_def example_claims_def example_data_def example_request_def
        session_without_ann_def bob_def bob_todo_def
        get_current_user_from_cookie_def get_current_user_from_cookie_body_def
        get_user_id_from_cookie_def get_todos_def TodoService_get_todos_by_user_def
        select_users_def select_todos_def first_def
        verify_token_def verify_token_body_def jwt_decode_def validate_claims_def
        validate_exp_def validate_sub_def validate_others_def other_registered_def
        verify_token_inner_def UUID_def TokenData_init_def dict_get_def)

subsection \<open>Ownership isolation (C1)\<close>

text \<open>
  C1, for an authenticated caller and a reachable store. If the table holds a todo with
  the given id whose owner is the caller, each of get, update, partial update, delete
  and toggle succeeds (on a todo with that id and owner). Otherwise, whether the id is
  absent or the todo belongs to someone else, each of them fails with the same
  \<open>todo_not_found\<close>, a 404, and leaves the session as it was.
\<close>

theorem ownership_isolation:
  assumes auth: "get_user_id_from_cookie E request utcnow = Inr caller"
    and store: "Session_failure session = None"
  shows "((\<exists>t \<in> set (Session_todos session). Todo_id t = todo_id \<and> Todo_user_id t = caller) \<longrightarrow>
            (\<exists>t. fst (get_todo E todo_id request session utcnow) = Inr t \<and>
                 Todo_id t = todo_id \<and> Todo_user_id t = caller) \<and>
            (\<exists>t. fst (update_todo E todo_id todo_update request session utcnow) = Inr t \<and>
                 Todo_id t = todo_id \<and> Todo_user_id t = caller) \<and>
            (\<exists>t. fst (patch_todo E todo_id todo_patch request session utcnow) = Inr t \<and>
                 Todo_id t = todo_id \<and> Todo_user_id t = caller) \<and>
            fst (delete_todo E todo_id request session utcnow) = Inr () \<and>
            (\<exists>t. fst (toggle_todo_completion E todo_id request session utcnow) = Inr t \<and>
                 Todo_id t = todo_id \<and> Todo_user_id t = caller)) \<and>
         (\<not> (\<exists>t \<in> set (Session_todos session). Todo_id t = todo_id \<and> Todo_user_id t = caller) \<longrightarrow>
            get_todo E todo_id request session utcnow = (Inl todo_not_found, session) \<and>
            update_todo E todo_id todo_update request session utcnow =
              (Inl todo_not_found, session) \<and>
            patch_todo E todo_id todo_patch request session utcnow =
              (Inl todo_not_found, session) \<and>
            delete_todo E todo_id request session utcnow = (Inl todo_not_found, session) \<and>
            toggle_todo_completion E todo_id request session utcnow =
              (Inl todo_not_found, session)) \<and>
         status_code todo_not_found = 404"
proof (intro conjI impI)
  assume "\<exists>t \<in> set (Session_todos session). Todo_id t = todo_id \<and> Todo_user_id t = caller"
  from get_todo_by_id_found [OF store this] obtain t where
    t: "TodoService_get_todo_by_id session todo_id caller = Inr t"
      "Todo_id t = todo_id" "Todo_user_id t = caller" by blast
  from auth t show "\<exists>t. fst (get_todo E todo_id request session utcnow) = Inr t \<and>
      Todo_id t = todo_id \<and> Todo_user_id t = caller"
    by (simp add: get_todo_def)
  from auth t show "\<exists>t. fst (update_todo E todo_id todo_update request session utcnow) = Inr t \<and>
      Todo_id t = todo_id \<and> Todo_user_id t = caller"
    by (simp add: update_todo_def TodoService_update_todo_def Let_def)
  from auth t show "\<exists>t. fst (patch_todo E todo_id todo_patch request session utcnow) = Inr t \<and>
      Todo_id t = todo_id \<and> Todo_user_id t = caller"
    by (simp add: patch_todo_def TodoService_patch_todo_def Let_def)
  from auth t show "fst (delete_todo E todo_id request session utcnow) = Inr ()"
    by (simp add: delete_todo_def TodoService_delete_todo_def)
  from auth t show "\<exists>t. fst (toggle_todo_completion E todo_id request session utcnow) = Inr t \<and>
      Todo_id t = todo_id \<and> Todo_user_id t = caller"
    by (simp add: toggle_todo_completion_def TodoService_toggle_todo_completion_def Let_def)
next
  assume "\<not> (\<exists>t \<in> set (Session_todos session). Todo_id t = todo_id \<and> Todo_user_id t = caller)"
  from get_todo_by_id_not_found [OF store this]
  have n: "TodoService_get_todo_by_id session todo_id caller = Inl todo_not_found" .
  from auth n show "get_todo E todo_id request session utcnow = (Inl todo_not_found, session)"
    by (simp add: get_todo_def)
  from auth n show "update_todo E todo_id todo_update request session utcnow =
      (Inl todo_not_found, session)"
    by (simp add: update_todo_def TodoService_update_todo_def Let_def)
  from auth n show "patch_todo E todo_id todo_patch request session utcnow =
      (Inl todo_not_found, session)"
    by (simp add: patch_todo_def TodoService_patch_todo_def Let_def)
  from auth n show "delete_todo E todo_id request session utcnow = (Inl todo_not_found, session)"
    by (simp add: delete_todo_def TodoService_delete_todo_def)
  from auth n show "toggle_todo_completion E todo_id request session utcnow =
      (Inl todo_not_found, session)"
    by (simp add: toggle_todo_completion_def TodoService_toggle_todo_completion_def Let_def)
next
  show "status_code todo_not_found = 404" by (simp add: todo_not_found_def)
qed

text \<open>The theorem for ann: her own todo 10, bob's todo 20 and the absent id 30.\<close>

theorem ownership_isolation_witness:
  "(\<exists>t. fst (get_todo example_env 10 example_request example_session 42000000) = Inr t \<and>
        Todo_id t = 10 \<and> Todo_user_id t = 1) \<and>
   fst (delete_todo example_env 10 example_request example_session 42000000) = Inr () \<and>
   get_todo example_env 20 example_request example_session 42000000 =
     (Inl todo_not_found, example_session) \<and>
   get_todo example_env 30 example_request example_session 42000000 =
     (Inl todo_not_found, example_session) \<and>
   delete_todo example_env 20 example_request example_session 42000000 =
     (Inl todo_not_found, example_session) \<and>
   toggle_todo_completion example_env 20 example_request example_session 42000000 =
     (Inl todo_not_found, example_session)"
proof -
  have store: "Session_failure example_session = None" by (simp add: example_session_def)
  note t = ownership_isolation [OF example_auth store]
  have own: "\<exists>t \<in> set (Session_todos example_session). Todo_id t = 10 \<and> Todo_user_id t = 1"
    by (simp add: example_session_def ann_todo_def)
  have other: "\<not> (\<exists>t \<in> set (Session_todos example_session). Todo_id t = 20 \<and> Todo_user_id t = 1)"
    by (simp add: example_session_def ann_todo_def bob_todo_def)
  have absent: "\<not> (\<exists>t \<in> set (Session_todos example_session). Todo_id t = 30 \<and> Todo_user_id t = 1)"
    by (simp add: example_session_def ann_todo_def bob_todo_def)
  from t [of 10] own t [of 20] other t [of 30] absent show ?thesis by blast
qed

subsection \<open>The owner of a created todo (C2)\<close>

text \<open>
  C2, for an authenticated caller and a reachable store. The todo that \<^verbatim>\<open>create_todo\<close>
  stores and returns is owned by the caller resolved from the cookie, whatever the
  request body holds, an owner included.
\<close>

theorem create_todo_owner:
  assumes auth: "get_user_id_from_cookie E request utcnow = Inr caller"
    and store: "Session_failure session = None"
  shows "\<exists>todo. create_todo E request session todo_create new_id utcnow =
           (Inr todo, session\<lparr>Session_todos := Session_todos session @ [todo]\<rparr>) \<and>
           Todo_user_id todo = caller"
  using assms by (simp add: create_todo_def TodoService_create_todo_def Let_def)

text \<open>The theorem for ann's request with a body that names bob as owner.\<close>

theorem create_todo_owner_witness:
  "\<exists>todo. create_todo example_env example_request example_session
            \<lparr>TodoCreate_title = ''walk'', TodoCreate_description = None,
             TodoCreate_completed = False, TodoCreate_user_id = Some 2\<rparr> 11 42000000 =
           (Inr todo, example_session\<lparr>Session_todos := Session_todos example_session @ [todo]\<rparr>) \<and>
          Todo_user_id todo = 1"
proof -
  have store: "Session_failure example_session = None" by (simp add: example_session_def)
  from create_todo_owner [OF example_auth store] show ?thesis .
qed

subsection \<open>Pagination defaults and page size (C9)\<close>

text \<open>
  C9, for an authenticated caller. Whatever the request gives or omits, the route calls
  the service with \<open>skip = 0\<close> for an omitted offset and \<open>limit = 100\<close> for an omitted
  limit, and with the given values otherwise. Whatever limit the client supplies, a page
  holds at most \<open>page_size_bound\<close> records, and at most as many as the limit in effect
  (none for a negative one).
\<close>

theorem get_todos_defaults_and_bound:
  assumes auth: "get_user_id_from_cookie E request utcnow = Inr caller"
  shows "get_todos E request session skip limit utcnow =
           (TodoService_get_todos_by_user E session caller
              (case skip of None \<Rightarrow> 0 | Some v \<Rightarrow> v)
              (case limit of None \<Rightarrow> 100 | Some v \<Rightarrow> v), session) \<and>
         (\<forall>page. fst (get_todos E request session skip limit utcnow) = Inr page \<longrightarrow>
            length page \<le> page_size_bound E \<and>
            int (length page) \<le> max 0 (case limit of None \<Rightarrow> 100 | Some v \<Rightarrow> v))"
  using assms
  by (auto simp: get_todos_def TodoService_get_todos_by_user_def select_todos_def Let_def
      split: option.splits)

text \<open>
  The theorem for ann's request without parameters, with only a limit, with only an
  offset, and, for a service whose bound is 1 and a table with two todos of ann, with
  \<open>limit = 1000\<close>: one record comes back.
\<close>

theorem get_todos_defaults_and_bound_witness:
  "get_todos example_env example_request example_session None None 42000000 =
     (Inr [ann_todo], example_session) \<and>
   get_todos example_env example_request example_session None (Some 0) 42000000 =
     (Inr [], example_session) \<and>
   get_todos example_env example_request example_session (Some 1) None 42000000 =
     (Inr [], example_session) \<and>
   fst (get_todos (example_env\<lparr>page_size_bound := 1\<rparr>) example_request
          (example_session\<lparr>Session_todos := [ann_todo, ann_todo\<lparr>Todo_id := 11\<rparr>]\<rparr>)
          None (Some 1000) 42000000) = Inr [ann_todo]"
proof -
  note t = get_todos_defaults_and_bound [OF example_auth, of example_session]
  have auth1: "get_user_id_from_cookie (example_env\<lparr>page_size_bound := 1\<rparr>) example_request
      42000000 = Inr 1"
    by (simp add: timegm_def
        example_env_def example_claims_def example_data_def example_request_def
        get_user_id_from_cookie_def
        verify_token_def verify_token_body_def jwt_decode_def validate_claims_def
        validate_exp_def validate_sub_def validate_others_def other_registered_def
        verify_token_inner_def UUID_def TokenData_init_def dict_get_def)
  have s: "TodoService_get_todos_by_user example_env example_session 1 0 100 = Inr [ann_todo]"
      "TodoService_get_todos_by_user example_env example_session 1 0 0 = Inr []"
      "TodoService_get_todos_by_user example_env example_session 1 1 100 = Inr []"
    by (simp_all add: TodoService_get_todos_by_user_def select_todos_def example_session_def
        example_env_def ann_todo_def bob_todo_def)
  have s': "TodoService_get_todos_by_user (example_env\<lparr>page_size_bound := 1\<rparr>)
        (example_session\<lparr>Session_todos := [ann_todo, ann_todo\<lparr>Todo_id := 11\<rparr>]\<rparr>) 1 0 1000 =
      Inr [ann_todo]"
    by (simp add: TodoService_get_todos_by_user_def select_todos_def example_session_def
        ann_todo_def)
  from t [of None None] s(1)
  have 1: "get_todos example_env example_request example_session None None 42000000 =
       (Inr [ann_todo], example_session)" by simp
  from t [of None "Some 0"] s(2)
  have 2: "get_todos example_env example_request example_session None (Some 0) 42000000 =
       (Inr [], example_session)" by simp
  from t [of "Some 1" None] s(3)
  have 3: "get_todos example_env example_request example_session (Some 1) None 42000000 =
       (Inr [], example_session)" by simp
  from get_todos_defaults_and_bound [OF auth1,
      of "example_session\<lparr>Session_todos := [ann_todo, ann_todo\<lparr>Todo_id := 11\<rparr>]\<rparr>"
         None "Some 1000"] s'
  have 4: "fst (get_todos (example_env\<lparr>page_size_bound := 1\<rparr>) example_request
          (example_session\<lparr>Session_todos := [ann_todo, ann_todo\<lparr>Todo_id := 11\<rparr>]\<rparr>)
          None (Some 1000) 42000000) = Inr [ann_todo]" by simp
  from 1 2 3 4 show ?thesis by simp
qed

end
